theory Spec2Isabelle
  imports Complex_Main "HOL-Library.Word"
begin

unbundle bit_operations_syntax

section \<open>Values, exceptions and text\<close>

text \<open>
  The handlers of the repository are Python functions from an event (a parsed JSON
  document) to a response (a dictionary). The embedding keeps that shape: an event is a
  value of type \<open>json\<close>, a dictionary is an association list in insertion order, and
  every subscript, method call and conversion that can raise is a function into
  \<open>exn + 'a\<close>, with \<open>Inl\<close> for the raised exception.

  Text. A Python \<open>str\<close> is an Isabelle \<open>string\<close>, one \<open>char\<close> per code point,
  for code points below 256. The pictographs of the confirmation messages lie above
  that range; each is written as the bytes of its UTF-8 encoding (the handlers only
  return these messages, and never inspect them). Numbers in events are integers.
\<close>

datatype exn =
    KeyError string
  | TypeError string
  | AttributeError string
  | ValueError string
  | IndexError string
  | OverflowError string
  | JSONDecodeError string
  | RequestException string

datatype json =
    JNull
  | JBool bool
  | JInt int
  | JStr string
  | JList "json list"
  | JDict "(string \<times> json) list"

definition andthen :: "exn + 'a \<Rightarrow> ('a \<Rightarrow> exn + 'b) \<Rightarrow> exn + 'b" where
  "andthen m f = (case m of Inl e \<Rightarrow> Inl e | Inr x \<Rightarrow> f x)"

subsection \<open>Characters and decimal text\<close>

definition is_digit :: "char \<Rightarrow> bool" where
  "is_digit c = (48 \<le> (of_char c :: nat) \<and> (of_char c :: nat) \<le> 57)"

definition is_upper :: "char \<Rightarrow> bool" where
  "is_upper c = (65 \<le> (of_char c :: nat) \<and> (of_char c :: nat) \<le> 90)"

definition is_lower :: "char \<Rightarrow> bool" where
  "is_lower c = (97 \<le> (of_char c :: nat) \<and> (of_char c :: nat) \<le> 122)"

definition digit_val :: "char \<Rightarrow> nat" where
  "digit_val c = of_char c - 48"

definition chr :: "nat \<Rightarrow> char" where
  "chr n = char_of n"

text \<open>\<open>str(n)\<close> for a natural number: its decimal digits, most significant first.\<close>

fun str_nat :: "nat \<Rightarrow> string" where
  "str_nat n = (if n < 10 then [chr (48 + n)] else str_nat (n div 10) @ [chr (48 + n mod 10)])"

declare str_nat.simps [simp del]

text \<open>\<open>s.zfill(k)\<close> for a text of digits: zeros on the left up to width \<open>k\<close>.\<close>

definition zfill :: "nat \<Rightarrow> string \<Rightarrow> string" where
  "zfill k s = replicate (k - length s) CHR ''0'' @ s"

definition str_int :: "int \<Rightarrow> string" where
  "str_int i = (if i < 0 then CHR ''-'' # str_nat (nat (- i)) else str_nat (nat i))"

subsection \<open>Case conversion and character classes\<close>

text \<open>
  \<open>str.lower()\<close> and \<open>str.upper()\<close> on code points below 256. Three characters have
  an upper-case form outside that range (0xB5, 0xFF) or of two letters (0xDF, \<open>SS\<close>);
  \<open>upper_char\<close> gives the two-letter form and leaves the other two unchanged. The
  handlers compare the results with ASCII words only.
\<close>

definition lower_char :: "char \<Rightarrow> char" where
  "lower_char c =
     (let n = (of_char c :: nat)
      in if (65 \<le> n \<and> n \<le> 90) \<or> (192 \<le> n \<and> n \<le> 222 \<and> n \<noteq> 215) then chr (n + 32) else c)"

definition lower :: "string \<Rightarrow> string" where
  "lower s = map lower_char s"

definition upper_char :: "char \<Rightarrow> string" where
  "upper_char c =
     (let n = (of_char c :: nat)
      in if (97 \<le> n \<and> n \<le> 122) \<or> (224 \<le> n \<and> n \<le> 254 \<and> n \<noteq> 247) then [chr (n - 32)]
         else if n = 223 then ''SS'' else [c])"

definition upper :: "string \<Rightarrow> string" where
  "upper s = concat (map upper_char s)"

text \<open>\<open>str.isalnum()\<close>: the text is not empty and every character is a letter or numeric.\<close>

definition alnum_char :: "char \<Rightarrow> bool" where
  "alnum_char c =
     (let n = (of_char c :: nat)
      in (48 \<le> n \<and> n \<le> 57) \<or> (65 \<le> n \<and> n \<le> 90) \<or> (97 \<le> n \<and> n \<le> 122)
         \<or> n = 170 \<or> n = 178 \<or> n = 179 \<or> n = 181 \<or> n = 185 \<or> n = 186
         \<or> n = 188 \<or> n = 189 \<or> n = 190
         \<or> (192 \<le> n \<and> n \<noteq> 215 \<and> n \<noteq> 247))"

definition isalnum :: "string \<Rightarrow> bool" where
  "isalnum s = (s \<noteq> [] \<and> list_all alnum_char s)"

text \<open>\<open>str.isprintable()\<close> for one character, and the white space that \<open>int()\<close> strips.\<close>

definition printable :: "char \<Rightarrow> bool" where
  "printable c =
     (let n = (of_char c :: nat) in (32 \<le> n \<and> n \<le> 126) \<or> (161 \<le> n \<and> n \<noteq> 173))"

definition is_space :: "char \<Rightarrow> bool" where
  "is_space c =
     (let n = (of_char c :: nat) in (9 \<le> n \<and> n \<le> 13) \<or> n = 32 \<or> n = 133 \<or> n = 160)"

subsection \<open>Text operations\<close>

text \<open>\<open>sub in s\<close> for two texts: \<open>sub\<close> occurs in \<open>s\<close> as a contiguous run.\<close>

fun is_prefix :: "string \<Rightarrow> string \<Rightarrow> bool" where
  "is_prefix [] s = True"
| "is_prefix (a # as) [] = False"
| "is_prefix (a # as) (b # bs) = (a = b \<and> is_prefix as bs)"

fun contains :: "string \<Rightarrow> string \<Rightarrow> bool" where
  "contains sub [] = (sub = [])"
| "contains sub (c # cs) = (is_prefix sub (c # cs) \<or> contains sub cs)"

text \<open>\<open>sep.join(parts)\<close>.\<close>

fun join :: "string \<Rightarrow> string list \<Rightarrow> string" where
  "join sep [] = []"
| "join sep [p] = p"
| "join sep (p # q # ps) = p @ sep @ join sep (q # ps)"

definition quoted :: "string \<Rightarrow> string" where
  "quoted s = CHR 0x27 # s @ [CHR 0x27]"

definition hex_digit :: "nat \<Rightarrow> char" where
  "hex_digit n = ''0123456789abcdef'' ! (n mod 16)"

text \<open>
  \<open>repr(s)\<close> for a text: in single quotes, or in double quotes when the text holds a
  single quote and no double quote; backslash, the quote, tab, newline and carriage
  return are escaped, and every other unprintable character is written \<open>\xNN\<close>.
\<close>

definition repr_char :: "char \<Rightarrow> char \<Rightarrow> string" where
  "repr_char q c =
     (if c = CHR 0x5C then [CHR 0x5C, CHR 0x5C]
      else if c = q then [CHR 0x5C, q]
      else if c = CHR 0x09 then [CHR 0x5C, CHR ''t'']
      else if c = CHR 0x0A then [CHR 0x5C, CHR ''n'']
      else if c = CHR 0x0D then [CHR 0x5C, CHR ''r'']
      else if printable c then [c]
      else [CHR 0x5C, CHR ''x'', hex_digit (of_char c div 16), hex_digit (of_char c)])"

definition repr_str :: "string \<Rightarrow> string" where
  "repr_str s =
     (let q = (if CHR 0x27 \<in> set s \<and> CHR 0x22 \<notin> set s then CHR 0x22 else CHR 0x27)
      in q # concat (map (repr_char q) s) @ [q])"

section \<open>Python values\<close>

definition type_name :: "json \<Rightarrow> string" where
  "type_name v =
     (case v of
        JNull \<Rightarrow> ''NoneType'' | JBool b \<Rightarrow> ''bool'' | JInt i \<Rightarrow> ''int''
      | JStr s \<Rightarrow> ''str'' | JList xs \<Rightarrow> ''list'' | JDict kvs \<Rightarrow> ''dict'')"

text \<open>Truth value testing: \<open>None\<close>, \<open>False\<close>, zero and empty containers are false.\<close>

definition truthy :: "json \<Rightarrow> bool" where
  "truthy v =
     (case v of
        JNull \<Rightarrow> False | JBool b \<Rightarrow> b | JInt i \<Rightarrow> i \<noteq> 0
      | JStr s \<Rightarrow> s \<noteq> [] | JList xs \<Rightarrow> xs \<noteq> [] | JDict kvs \<Rightarrow> kvs \<noteq> [])"

text \<open>
  \<open>repr(v)\<close> and \<open>str(v)\<close>, which an f-string applies to the value it formats.
\<close>

fun py_repr :: "json \<Rightarrow> string" where
  "py_repr JNull = ''None''"
| "py_repr (JBool b) = (if b then ''True'' else ''False'')"
| "py_repr (JInt i) = str_int i"
| "py_repr (JStr s) = repr_str s"
| "py_repr (JList xs) = ''['' @ join '', '' (map py_repr xs) @ '']''"
| "py_repr (JDict kvs) =
     ''{'' @ join '', '' (map (\<lambda>kv. repr_str (fst kv) @ '': '' @ py_repr (snd kv)) kvs) @ ''}''"

definition py_str :: "json \<Rightarrow> string" where
  "py_str v = (case v of JStr s \<Rightarrow> s | _ \<Rightarrow> py_repr v)"

subsection \<open>Dictionaries and subscripts\<close>

text \<open>\<open>d[k] = v\<close> on an association list: an existing key keeps its place.\<close>

fun dict_set :: "(string \<times> json) list \<Rightarrow> string \<Rightarrow> json \<Rightarrow> (string \<times> json) list" where
  "dict_set [] k v = [(k, v)]"
| "dict_set (p # ps) k v = (if fst p = k then (k, v) # ps else p # dict_set ps k v)"

text \<open>\<open>v.get(k, default)\<close>: only a dictionary has the method.\<close>

definition py_get :: "json \<Rightarrow> string \<Rightarrow> json \<Rightarrow> exn + json" where
  "py_get v k dflt =
     (case v of
        JDict kvs \<Rightarrow> Inr (case map_of kvs k of Some x \<Rightarrow> x | None \<Rightarrow> dflt)
      | _ \<Rightarrow> Inl (AttributeError (quoted (type_name v) @ '' object has no attribute '' @ quoted ''get'')))"

text \<open>\<open>v[k]\<close> for a text key \<open>k\<close>.\<close>

definition py_getitem :: "json \<Rightarrow> string \<Rightarrow> exn + json" where
  "py_getitem v k =
     (case v of
        JDict kvs \<Rightarrow> (case map_of kvs k of Some x \<Rightarrow> Inr x | None \<Rightarrow> Inl (KeyError (repr_str k)))
      | JStr s \<Rightarrow> Inl (TypeError (''string indices must be integers, not '' @ quoted ''str''))
      | JList xs \<Rightarrow> Inl (TypeError ''list indices must be integers or slices, not str'')
      | _ \<Rightarrow> Inl (TypeError (quoted (type_name v) @ '' object is not subscriptable'')))"

text \<open>\<open>v[k1][k2]...\<close>: a chain of subscripts, left to right.\<close>

fun py_path :: "json \<Rightarrow> string list \<Rightarrow> exn + json" where
  "py_path v [] = Inr v"
| "py_path v (k # ks) = andthen (py_getitem v k) (\<lambda>x. py_path x ks)"

text \<open>\<open>v[k] = x\<close> for a text key: the updated container.\<close>

definition py_setitem :: "json \<Rightarrow> string \<Rightarrow> json \<Rightarrow> exn + json" where
  "py_setitem v k x =
     (case v of
        JDict kvs \<Rightarrow> Inr (JDict (dict_set kvs k x))
      | JList xs \<Rightarrow> Inl (TypeError ''list indices must be integers or slices, not str'')
      | _ \<Rightarrow> Inl (TypeError (quoted (type_name v) @ '' object does not support item assignment'')))"

text \<open>\<open>v[0]\<close>: the first character of a text, the first element of a list.\<close>

definition py_first :: "json \<Rightarrow> exn + json" where
  "py_first v =
     (case v of
        JStr s \<Rightarrow> (case s of [] \<Rightarrow> Inl (IndexError ''string index out of range'') | c # cs \<Rightarrow> Inr (JStr [c]))
      | JList xs \<Rightarrow> (case xs of [] \<Rightarrow> Inl (IndexError ''list index out of range'') | x # ys \<Rightarrow> Inr x)
      | JDict kvs \<Rightarrow> Inl (KeyError ''0'')
      | _ \<Rightarrow> Inl (TypeError (quoted (type_name v) @ '' object is not subscriptable'')))"

text \<open>\<open>k in v\<close> for a text \<open>k\<close>: a key of a dictionary, an element of a list, a run of a text.\<close>

definition py_in :: "string \<Rightarrow> json \<Rightarrow> exn + bool" where
  "py_in k v =
     (case v of
        JDict kvs \<Rightarrow> Inr (map_of kvs k \<noteq> None)
      | JList xs \<Rightarrow> Inr (JStr k \<in> set xs)
      | JStr s \<Rightarrow> Inr (contains k s)
      | _ \<Rightarrow> Inl (TypeError (''argument of type '' @ quoted (type_name v) @ '' is not iterable'')))"

text \<open>The method calls \<open>v.lower()\<close>, \<open>v.upper()\<close>, \<open>v.isalnum()\<close> and \<open>len(v)\<close>.\<close>

definition no_attribute :: "json \<Rightarrow> string \<Rightarrow> exn" where
  "no_attribute v a = AttributeError (quoted (type_name v) @ '' object has no attribute '' @ quoted a)"

definition py_lower :: "json \<Rightarrow> exn + string" where
  "py_lower v = (case v of JStr s \<Rightarrow> Inr (lower s) | _ \<Rightarrow> Inl (no_attribute v ''lower''))"

definition py_upper :: "json \<Rightarrow> exn + string" where
  "py_upper v = (case v of JStr s \<Rightarrow> Inr (upper s) | _ \<Rightarrow> Inl (no_attribute v ''upper''))"

definition py_isalnum :: "json \<Rightarrow> exn + bool" where
  "py_isalnum v = (case v of JStr s \<Rightarrow> Inr (isalnum s) | _ \<Rightarrow> Inl (no_attribute v ''isalnum''))"

definition py_len :: "json \<Rightarrow> exn + nat" where
  "py_len v =
     (case v of
        JStr s \<Rightarrow> Inr (length s) | JList xs \<Rightarrow> Inr (length xs) | JDict kvs \<Rightarrow> Inr (length kvs)
      | _ \<Rightarrow> Inl (TypeError (''object of type '' @ quoted (type_name v) @ '' has no len()'')))"

subsection \<open>Conversion to an integer\<close>

text \<open>
  \<open>int(s)\<close> for a text: white space is stripped at both ends; then an optional sign and
  decimal digits, where single underscores may stand between digits. \<open>None\<close> is where
  the interpreter raises \<open>ValueError\<close>. (The interpreter's optional cap on the number of
  digits is not modelled.)
\<close>

fun parse_digits :: "nat \<Rightarrow> string \<Rightarrow> nat option" where
  "parse_digits acc [] = Some acc"
| "parse_digits acc [c] = (if is_digit c then Some (10 * acc + digit_val c) else None)"
| "parse_digits acc (c # d # r) =
     (if is_digit c then parse_digits (10 * acc + digit_val c) (d # r)
      else if c = CHR ''_'' \<and> is_digit d then parse_digits (10 * acc + digit_val d) r
      else None)"

definition parse_unsigned :: "string \<Rightarrow> nat option" where
  "parse_unsigned s =
     (case s of [] \<Rightarrow> None | c # r \<Rightarrow> if is_digit c then parse_digits (digit_val c) r else None)"

definition strip :: "string \<Rightarrow> string" where
  "strip s = rev (dropWhile is_space (rev (dropWhile is_space s)))"

definition int_of_str :: "string \<Rightarrow> int option" where
  "int_of_str s =
     (case strip s of
        [] \<Rightarrow> None
      | c # r \<Rightarrow>
          if c = CHR ''-'' then map_option (\<lambda>n. - int n) (parse_unsigned r)
          else if c = CHR ''+'' then map_option int (parse_unsigned r)
          else map_option int (parse_unsigned (c # r)))"

definition py_int :: "json \<Rightarrow> exn + int" where
  "py_int v =
     (case v of
        JInt i \<Rightarrow> Inr i
      | JBool b \<Rightarrow> Inr (if b then 1 else 0)
      | JStr s \<Rightarrow>
          (case int_of_str s of
             Some i \<Rightarrow> Inr i
           | None \<Rightarrow> Inl (ValueError (''invalid literal for int() with base 10: '' @ repr_str s)))
      | _ \<Rightarrow> Inl (TypeError (''int() argument must be a string, a bytes-like object or a real number, not '' @ quoted (type_name v))))"

section \<open>Binary floating point\<close>

text \<open>
  A Python \<open>float\<close> is an IEEE 754 binary64 number. \<open>Fin m e\<close> is the finite number
  \<open>m * 2^e\<close>; rounding is to the nearest representable number, ties to the even
  mantissa, with 53 bits of mantissa, exponents of the last mantissa bit from -1074 to
  971, and overflow to an infinity. (The sign of zero is not modelled: the handlers
  multiply positive prices by converted integers, which never gives a negative zero.)
\<close>

datatype dbl = Fin int int | PInf | NInf | NaN

fun bitlen :: "nat \<Rightarrow> nat" where
  "bitlen n = (if n = 0 then 0 else Suc (bitlen (n div 2)))"

declare bitlen.simps [simp del]

text \<open>\<open>p / q\<close> rounded to the nearest integer, ties to even, for \<open>q > 0\<close>.\<close>

definition round_half_even :: "int \<Rightarrow> int \<Rightarrow> int" where
  "round_half_even p q =
     (let d = p div q; r = p mod q
      in if 2 * r < q then d else if q < 2 * r then d + 1 else if even d then d else d + 1)"

text \<open>The integer part of the binary logarithm of \<open>a / q\<close>, for \<open>a > 0\<close> and \<open>q > 0\<close>.\<close>

definition floor_log2 :: "nat \<Rightarrow> nat \<Rightarrow> int" where
  "floor_log2 a q =
     (let k = int (bitlen a) - int (bitlen q)
      in if (if 0 \<le> k then q * 2 ^ nat k \<le> a else q \<le> a * 2 ^ nat (- k)) then k else k - 1)"

text \<open>The binary64 number nearest to the fraction \<open>p / q\<close>, for \<open>q > 0\<close>.\<close>

definition round_dbl :: "int \<Rightarrow> int \<Rightarrow> dbl" where
  "round_dbl p q =
     (if p = 0 then Fin 0 0
      else
        let a = nat \<bar>p\<bar>;
            sh = max (floor_log2 a (nat q) - 52) (- 1074);
            m = (if 0 \<le> sh then round_half_even (int a) (q * 2 ^ nat sh)
                 else round_half_even (int a * 2 ^ nat (- sh)) q);
            m' = (if m = 2 ^ 53 then 2 ^ 52 else m);
            sh' = (if m = 2 ^ 53 then sh + 1 else sh)
        in if 971 < sh' then (if p < 0 then NInf else PInf)
           else if m' = 0 then Fin 0 0
           else Fin (if p < 0 then - m' else m') sh')"

definition dbl_sgn :: "dbl \<Rightarrow> int" where
  "dbl_sgn x = (case x of Fin m e \<Rightarrow> sgn m | PInf \<Rightarrow> 1 | NInf \<Rightarrow> - 1 | NaN \<Rightarrow> 0)"

text \<open>\<open>x * y\<close> on floats: the exact product, rounded.\<close>

definition dbl_mul :: "dbl \<Rightarrow> dbl \<Rightarrow> dbl" where
  "dbl_mul x y =
     (case (x, y) of
        (Fin m1 e1, Fin m2 e2) \<Rightarrow>
          (if 0 \<le> e1 + e2 then round_dbl (m1 * m2 * 2 ^ nat (e1 + e2)) 1
           else round_dbl (m1 * m2) (2 ^ nat (- (e1 + e2))))
      | (NaN, _) \<Rightarrow> NaN
      | (_, NaN) \<Rightarrow> NaN
      | _ \<Rightarrow> (if dbl_sgn x * dbl_sgn y = 0 then NaN
                else if 0 < dbl_sgn x * dbl_sgn y then PInf else NInf))"

text \<open>\<open>x < y\<close> on floats.\<close>

definition dbl_less :: "dbl \<Rightarrow> dbl \<Rightarrow> bool" where
  "dbl_less x y =
     (case (x, y) of
        (Fin m1 e1, Fin m2 e2) \<Rightarrow>
          (let e = min e1 e2 in m1 * 2 ^ nat (e1 - e) < m2 * 2 ^ nat (e2 - e))
      | (NaN, _) \<Rightarrow> False
      | (_, NaN) \<Rightarrow> False
      | (NInf, NInf) \<Rightarrow> False
      | (NInf, _) \<Rightarrow> True
      | (PInf, _) \<Rightarrow> False
      | (_, PInf) \<Rightarrow> True
      | (_, NInf) \<Rightarrow> False)"

text \<open>
  The conversion of an integer operand to a float, which \<open>float * int\<close> performs first;
  the interpreter raises \<open>OverflowError\<close> when the integer is too large.
\<close>

definition float_of_int :: "int \<Rightarrow> exn + dbl" where
  "float_of_int n =
     (case round_dbl n 1 of
        Fin m e \<Rightarrow> Inr (Fin m e)
      | _ \<Rightarrow> Inl (OverflowError ''int too large to convert to float''))"

definition float_times_int :: "dbl \<Rightarrow> int \<Rightarrow> exn + dbl" where
  "float_times_int x n = andthen (float_of_int n) (\<lambda>f. Inr (dbl_mul x f))"

text \<open>
  \<open>format(x, '.2f')\<close>: the exact value rounded to two decimals, ties to even.
\<close>

definition format_2f :: "dbl \<Rightarrow> string" where
  "format_2f x =
     (case x of
        Fin m e \<Rightarrow>
          (let cents = (if 0 \<le> e then \<bar>m\<bar> * 2 ^ nat e * 100
                        else round_half_even (\<bar>m\<bar> * 100) (2 ^ nat (- e)))
           in (if m < 0 then ''-'' else '''') @ str_nat (nat (cents div 100)) @ ''.''
                @ zfill 2 (str_nat (nat (cents mod 100))))
      | PInf \<Rightarrow> ''inf''
      | NInf \<Rightarrow> ''-inf''
      | NaN \<Rightarrow> ''nan'')"

text \<open>The exact value of a finite float, as a fraction.\<close>

definition dbl_val :: "dbl \<Rightarrow> rat option" where
  "dbl_val x =
     (case x of
        Fin m e \<Rightarrow> Some (if 0 \<le> e then of_int (m * 2 ^ nat e) else of_int m / of_int (2 ^ nat (- e)))
      | _ \<Rightarrow> None)"

section \<open>Booking numbers\<close>

text \<open>
  \<open>uuid.uuid4().int\<close>: sixteen random bytes read as a 128-bit integer, with the variant
  bits set to binary 10 and the version nibble set to 4, as the \<open>uuid\<close> module does:
  \<^verbatim>\<open>int &= ~(0xc000 << 48); int |= 0x8000 << 48; int &= ~(0xf000 << 64); int |= 4 << 76\<close>.
  The random bytes are the argument.
\<close>

definition uuid4_int :: "128 word \<Rightarrow> nat" where
  "uuid4_int r =
     unat ((((r AND NOT (push_bit 48 0xc000)) OR push_bit 48 0x8000)
             AND NOT (push_bit 64 0xf000)) OR push_bit 76 4)"

text \<open>
  \<^verbatim>\<open>letters = ''.join([chr(ord('A') + (uuid.uuid4().int % 26)) for _ in range(3)])\<close>
  \<^verbatim>\<open>numbers = str(uuid.uuid4().int)[:5]\<close>
  \<^verbatim>\<open>return f"{letters}{numbers}"\<close>
  The function is the same in both fulfillment files. Its argument is the stream of
  random draws behind the successive \<open>uuid4()\<close> calls; it uses the first four.
\<close>

definition generate_booking_number :: "(nat \<Rightarrow> 128 word) \<Rightarrow> string" where
  "generate_booking_number draws =
     (let letters = map (\<lambda>i. chr (65 + uuid4_int (draws i) mod 26)) [0, 1, 2];
          numbers = take 5 (str_nat (uuid4_int (draws 3)))
      in letters @ numbers)"

text \<open>The format the source's comment gives: \<open>ABC12345\<close>, 3 letters and 5 digits.\<close>

definition booking_format :: "string \<Rightarrow> bool" where
  "booking_format s =
     (length s = 8 \<and> list_all is_upper (take 3 s) \<and> list_all is_digit (drop 3 s))"

section \<open>Dates\<close>

text \<open>
  The proleptic Gregorian calendar of the \<open>datetime\<close> module. A point in time is its
  day number (\<open>toordinal()\<close>: 1 is 0001-01-01, 3652059 is 9999-12-31) and the
  microseconds since midnight.
\<close>

record datetime =
  ordinal :: nat
  micros :: nat

definition is_leap :: "nat \<Rightarrow> bool" where
  "is_leap y = (y mod 4 = 0 \<and> (y mod 100 \<noteq> 0 \<or> y mod 400 = 0))"

definition days_in_month :: "nat \<Rightarrow> nat \<Rightarrow> nat" where
  "days_in_month y m =
     (if m = 2 then (if is_leap y then 29 else 28)
      else if m = 4 \<or> m = 6 \<or> m = 9 \<or> m = 11 then 30 else 31)"

definition days_before_year :: "nat \<Rightarrow> nat" where
  "days_before_year y =
     (let p = y - 1 in p * 365 + p div 4 - p div 100 + p div 400)"

definition days_before_month :: "nat \<Rightarrow> nat \<Rightarrow> nat" where
  "days_before_month y m = sum_list (map (days_in_month y) [1..<m])"

definition ymd_ordinal :: "nat \<Rightarrow> nat \<Rightarrow> nat \<Rightarrow> nat" where
  "ymd_ordinal y m d = days_before_year y + days_before_month y m + d"

definition max_ordinal :: nat where
  "max_ordinal = 3652059"

text \<open>
  \<open>datetime.strptime(s, '%Y-%m-%d')\<close>. The library compiles the format to the regular
  expression
  \<^verbatim>\<open>(\d\d\d\d)-(1[0-2]|0[1-9]|[1-9])-(3[0-1]|[1-2]\d|0[1-9]|[1-9]| [1-9])\<close>,
  matches it at the start of the text, and raises \<open>ValueError\<close> when it does not match,
  when text remains after the match, when the year is 0 or when the day is not a day of
  the month. The alternatives are tried in the order written; \<open>strptime_ymd\<close> returns
  \<open>None\<close> where the library raises \<open>ValueError\<close>.
\<close>

definition nonzero_digit :: "char \<Rightarrow> bool" where
  "nonzero_digit c = (is_digit c \<and> c \<noteq> CHR ''0'')"

fun parse_month :: "string \<Rightarrow> (nat \<times> string) option" where
  "parse_month (a # b # r) =
     (if a = CHR ''1'' \<and> (b = CHR ''0'' \<or> b = CHR ''1'' \<or> b = CHR ''2'')
        then Some (10 + digit_val b, r)
      else if a = CHR ''0'' \<and> nonzero_digit b then Some (digit_val b, r)
      else if nonzero_digit a then Some (digit_val a, b # r)
      else None)"
| "parse_month [a] = (if nonzero_digit a then Some (digit_val a, []) else None)"
| "parse_month [] = None"

fun parse_day :: "string \<Rightarrow> (nat \<times> string) option" where
  "parse_day (a # b # r) =
     (if a = CHR ''3'' \<and> (b = CHR ''0'' \<or> b = CHR ''1'') then Some (30 + digit_val b, r)
      else if (a = CHR ''1'' \<or> a = CHR ''2'') \<and> is_digit b
        then Some (10 * digit_val a + digit_val b, r)
      else if a = CHR ''0'' \<and> nonzero_digit b then Some (digit_val b, r)
      else if nonzero_digit a then Some (digit_val a, b # r)
      else if a = CHR '' '' \<and> nonzero_digit b then Some (digit_val b, r)
      else None)"
| "parse_day [a] = (if nonzero_digit a then Some (digit_val a, []) else None)"
| "parse_day [] = None"

definition strptime_ymd :: "string \<Rightarrow> (nat \<times> nat \<times> nat) option" where
  "strptime_ymd s =
     (case s of
        y1 # y2 # y3 # y4 # dash # r \<Rightarrow>
          if is_digit y1 \<and> is_digit y2 \<and> is_digit y3 \<and> is_digit y4 \<and> dash = CHR ''-'' then
            (case parse_month r of
               Some (m, sep # r') \<Rightarrow>
                 if sep = CHR ''-'' then
                   (case parse_day r' of
                      Some (d, rest) \<Rightarrow>
                        (let y = 1000 * digit_val y1 + 100 * digit_val y2
                                   + 10 * digit_val y3 + digit_val y4
                         in if rest = [] \<and> 1 \<le> y \<and> d \<le> days_in_month y m
                            then Some (y, m, d) else None)
                    | None \<Rightarrow> None)
                 else None
             | _ \<Rightarrow> None)
          else None
      | _ \<Rightarrow> None)"

text \<open>
  \<open>strftime('%d/%m/%Y')\<close>: day and month as two digits, the year as the library
  documents \<open>%Y\<close>, four digits from 0001 to 9999. (C libraries that print a year below
  1000 without its leading zeros differ from the documented form there.)
\<close>

definition strftime_dmy :: "nat \<times> nat \<times> nat \<Rightarrow> string" where
  "strftime_dmy t =
     (case t of (y, m, d) \<Rightarrow>
        zfill 2 (str_nat d) @ ''/'' @ zfill 2 (str_nat m) @ ''/'' @ zfill 4 (str_nat y))"

text \<open>The ISO text of a date, \<open>YYYY-MM-DD\<close> (\<open>date.isoformat()\<close>).\<close>

definition isoformat_ymd :: "nat \<times> nat \<times> nat \<Rightarrow> string" where
  "isoformat_ymd t =
     (case t of (y, m, d) \<Rightarrow>
        zfill 4 (str_nat y) @ ''-'' @ zfill 2 (str_nat m) @ ''-'' @ zfill 2 (str_nat d))"

definition valid_date :: "nat \<times> nat \<times> nat \<Rightarrow> bool" where
  "valid_date t =
     (case t of (y, m, d) \<Rightarrow>
        1 \<le> y \<and> y \<le> 9999 \<and> 1 \<le> m \<and> m \<le> 12 \<and> 1 \<le> d \<and> d \<le> days_in_month y m)"

text \<open>
  \<open>strptime\<close> applied to any value: text that does not parse raises \<open>ValueError\<close>, a
  value that is not text raises \<open>TypeError\<close>.
\<close>

definition strptime :: "json \<Rightarrow> exn + nat \<times> nat \<times> nat" where
  "strptime v =
     (case v of
        JStr s \<Rightarrow>
          (case strptime_ymd s of
             Some t \<Rightarrow> Inr t
           | None \<Rightarrow> Inl (ValueError ''time data does not match format''))
      | _ \<Rightarrow> Inl (TypeError ''strptime() argument 1 must be str''))"

text \<open>
  \<^verbatim>\<open>def format_date_for_display(iso_date):\<close>
  \<^verbatim>\<open>    try:\<close>
  \<^verbatim>\<open>        date_obj = datetime.strptime(iso_date, '%Y-%m-%d')\<close>
  \<^verbatim>\<open>        return date_obj.strftime('%d/%m/%Y')\<close>
  \<^verbatim>\<open>    except:\<close>
  \<^verbatim>\<open>        return iso_date\<close>
  The same in both fulfillment files. The bare \<open>except\<close> catches every exception.
\<close>

definition format_date_for_display :: "json \<Rightarrow> json" where
  "format_date_for_display iso_date =
     (case andthen (strptime iso_date) (\<lambda>date_obj. Inr (JStr (strftime_dmy date_obj))) of
        Inr shown \<Rightarrow> shown
      | Inl e \<Rightarrow> iso_date)"

section \<open>The surroundings of an invocation\<close>

text \<open>
  What a handler reads besides its event: the clock, the environment variables, which
  libraries can be imported, the random bytes behind \<open>uuid.uuid4()\<close>, the draws of the
  \<open>random\<close> module, and the outcomes of the two external services of the layer demo.
  A draw is a natural number; \<open>random.choice(xs)\<close> is \<open>xs ! (k mod length xs)\<close>,
  \<open>random.random()\<close> is \<open>(k mod 2^53) / 2^53\<close> and \<open>random.randint(a, b)\<close> is
  \<open>a + k mod (b - a + 1)\<close>.
\<close>

record world =
  now :: datetime
  now_isoformat :: string
  utc_isoformat :: string
  environ :: "string \<Rightarrow> string option"
  importable :: "string \<Rightarrow> bool"
  uuid_draws :: "nat \<Rightarrow> 128 word"
  random_choice :: nat
  random_random :: nat
  random_randint :: nat
  list_buckets :: "exn + nat"
  requests_get :: "json \<Rightarrow> exn + int \<times> json"

definition py_random :: "world \<Rightarrow> dbl" where
  "py_random w = Fin (int (random_random w mod 2 ^ 53)) (- 53)"

text \<open>
  A dictionary built by the code that also holds floats (a booking record): its values
  are JSON values or floats.
\<close>

datatype pyval = J json | F dbl

type_synonym pydict = "(string \<times> pyval) list"

text \<open>
  \<open>format(v, '.2f')\<close>: a float is printed; an integer or a truth value is converted
  first; any other value has no such format.
\<close>

definition py_format_2f :: "pyval \<Rightarrow> exn + string" where
  "py_format_2f v =
     (case v of
        F x \<Rightarrow> Inr (format_2f x)
      | J (JInt i) \<Rightarrow> andthen (float_of_int i) (\<lambda>x. Inr (format_2f x))
      | J (JBool b) \<Rightarrow> andthen (float_of_int (if b then 1 else 0)) (\<lambda>x. Inr (format_2f x))
      | J (JStr s) \<Rightarrow> Inl (ValueError (''Unknown format code '' @ quoted ''f'' @ '' for object of type '' @ quoted ''str''))
      | J u \<Rightarrow> Inl (TypeError (''unsupported format string passed to '' @ type_name u @ ''.__format__'')))"

section \<open>Responses to the dialog service\<close>

text \<open>The pictographs and the pound sign of the messages.\<close>

definition calendar_sign :: string where
  "calendar_sign = [CHR 0xF0, CHR 0x9F, CHR 0x93, CHR 0x85]"

definition moon_sign :: string where
  "moon_sign = [CHR 0xF0, CHR 0x9F, CHR 0x8C, CHR 0x99]"

definition money_sign :: string where
  "money_sign = [CHR 0xF0, CHR 0x9F, CHR 0x92, CHR 0xB0]"

definition ticket_sign :: string where
  "ticket_sign = [CHR 0xF0, CHR 0x9F, CHR 0x8E, CHR 0xAB]"

definition stopwatch_sign :: string where
  "stopwatch_sign = [CHR 0xE2, CHR 0x8F, CHR 0xB1, CHR 0xEF, CHR 0xB8, CHR 0x8F]"

definition pound_sign :: string where
  "pound_sign = [CHR 0xA3]"

definition plain_text :: "string \<Rightarrow> json" where
  "plain_text message =
     JList [JDict [(''contentType'', JStr ''PlainText''), (''content'', JStr message)]]"

text \<open>
  \<open>close_failed(event, message)\<close>, the same in both fulfillment files: the intent of the
  event with its \<open>state\<close> set to \<open>Failed\<close>, in a \<open>Close\<close> response.
\<close>

definition close_failed :: "json \<Rightarrow> string \<Rightarrow> exn + json" where
  "close_failed event message =
     andthen (py_path event [''sessionState'', ''intent'']) (\<lambda>intent.
     andthen (py_setitem intent ''state'' (JStr ''Failed'')) (\<lambda>intent'.
     Inr (JDict
       [(''sessionState'', JDict
           [(''dialogAction'', JDict [(''type'', JStr ''Close'')]),
            (''intent'', intent')]),
        (''messages'', plain_text message)])))"

text \<open>
  \<open>close_fulfilled(event, message, session_attributes=None)\<close> of the fulfillment hook;
  \<open>JNull\<close> is the default \<open>None\<close>. The session attributes are added when they are true.
\<close>

definition close_fulfilled :: "json \<Rightarrow> string \<Rightarrow> json \<Rightarrow> exn + json" where
  "close_fulfilled event message session_attributes =
     andthen (py_path event [''sessionState'', ''intent'']) (\<lambda>intent.
     andthen (py_setitem intent ''state'' (JStr ''Fulfilled'')) (\<lambda>intent'.
     Inr (JDict
       [(''sessionState'', JDict
           ([(''dialogAction'', JDict [(''type'', JStr ''Close'')]),
             (''intent'', intent')]
            @ (if truthy session_attributes
               then [(''sessionAttributes'', session_attributes)] else []))),
        (''messages'', plain_text message)])))"

section \<open>The fulfillment hook\<close>

text \<open>The price table of \<open>fulfill_book_room\<close> and \<open>fulfill_booking\<close>, with its default.\<close>

definition room_prices :: "string \<Rightarrow> dbl option" where
  "room_prices =
     map_of [(''single'', round_dbl 8999 100), (''double'', round_dbl 12999 100),
             (''suite'', round_dbl 24999 100)]"

definition price_per_night :: "string \<Rightarrow> dbl" where
  "price_per_night key =
     (case room_prices key of Some p \<Rightarrow> p | None \<Rightarrow> round_dbl 9999 100)"

text \<open>
  \<open>create_booking(booking_data)\<close>: the record is logged, and the booking succeeds when
  \<open>random.random() < 0.98\<close>.
\<close>

definition create_booking :: "world \<Rightarrow> pydict \<Rightarrow> bool \<times> pydict option" where
  "create_booking w booking_data =
     (let success = dbl_less (py_random w) (round_dbl 98 100)
      in (success, if success then Some booking_data else None))"

text \<open>
  \<open>get_booking_details(booking_number)\<close>: mock data for a number whose first character,
  in upper case, is \<open>A\<close> or \<open>B\<close>; \<open>None\<close> otherwise.
\<close>

definition get_booking_details :: "json \<Rightarrow> exn + pydict option" where
  "get_booking_details booking_number =
     andthen (py_first booking_number) (\<lambda>c.
     andthen (py_upper c) (\<lambda>u.
     if u = ''A'' \<or> u = ''B'' then
       Inr (Some [(''booking_number'', J booking_number),
                  (''room_type'', J (JStr ''double'')),
                  (''check_in_date'', J (JStr ''2026-03-15'')),
                  (''nights'', J (JInt 3)),
                  (''total_price'', F (round_dbl 38997 100)),
                  (''status'', J (JStr ''confirmed''))])
     else Inr None))"

text \<open>\<open>cancel_booking(booking_number)\<close>: always reports success.\<close>

definition cancel_booking :: "json \<Rightarrow> pydict" where
  "cancel_booking booking_number =
     [(''success'', J (JBool True)), (''booking_number'', J booking_number)]"

definition plural_s :: "int \<Rightarrow> string" where
  "plural_s nights = (if 1 < nights then ''s'' else '''')"

definition missing_information :: string where
  "missing_information = ''I'm sorry, some booking information is missing. Please try again.''"

definition unexpected_error :: string where
  "unexpected_error =
     ''I'm sorry, an unexpected error occurred. Please try again or contact support.''"

text \<open>
  \<open>fulfill_book_room(event)\<close>, fulfillment hook lines 39 to 105. \<open>book_room_body\<close> is the
  body of the \<open>try\<close>; \<open>float_str\<close> is \<open>str\<close> on a float, left as a parameter. The two
  \<open>except\<close> clauses answer with \<open>close_failed\<close>, outside the \<open>try\<close>.
\<close>

definition book_room_message :: "json \<Rightarrow> json \<Rightarrow> int \<Rightarrow> dbl \<Rightarrow> string \<Rightarrow> string" where
  "book_room_message room_type check_in_display nights total_price booking_number =
     ''Excellent! Your '' @ py_str room_type @ '' room has been successfully booked.\<newline>\<newline>''
     @ calendar_sign @ '' Check-in: '' @ py_str check_in_display @ ''\<newline>''
     @ moon_sign @ '' Duration: '' @ str_int nights @ '' night'' @ plural_s nights @ ''\<newline>''
     @ money_sign @ '' Total: '' @ pound_sign @ format_2f total_price @ ''\<newline>''
     @ ticket_sign @ '' Confirmation: '' @ booking_number @ ''\<newline>\<newline>''
     @ ''A confirmation email has been sent. We look forward to welcoming you!''"

definition book_room_body :: "(dbl \<Rightarrow> string) \<Rightarrow> world \<Rightarrow> json \<Rightarrow> exn + json" where
  "book_room_body float_str w event =
     andthen (py_path event [''sessionState'', ''intent'', ''slots'']) (\<lambda>slots.
     andthen (py_path slots [''RoomType'', ''value'', ''interpretedValue'']) (\<lambda>room_type.
     andthen (py_path slots [''CheckInDate'', ''value'', ''interpretedValue'']) (\<lambda>check_in_date.
     andthen (py_path slots [''Nights'', ''value'', ''interpretedValue'']) (\<lambda>nights_value.
     andthen (py_int nights_value) (\<lambda>nights.
     let booking_number = generate_booking_number (uuid_draws w) in
     andthen (py_lower room_type) (\<lambda>key.
     andthen (float_times_int (price_per_night key) nights) (\<lambda>total_price.
     let booking_result = create_booking w
           [(''booking_number'', J (JStr booking_number)),
            (''room_type'', J room_type),
            (''check_in_date'', J check_in_date),
            (''nights'', J (JInt nights)),
            (''total_price'', F total_price),
            (''timestamp'', J (JStr (now_isoformat w)))]
     in
     if fst booking_result then
       (let check_in_display = format_date_for_display check_in_date;
            message = book_room_message room_type check_in_display nights total_price booking_number
        in
        andthen (py_get event ''sessionAttributes'' (JDict [])) (\<lambda>session_attributes.
        andthen (py_setitem session_attributes ''lastBookingNumber'' (JStr booking_number)) (\<lambda>sa1.
        andthen (py_setitem sa1 ''lastBookingTotal'' (JStr (float_str total_price))) (\<lambda>sa2.
        close_fulfilled event message sa2))))
     else
       close_failed event
         ''I'm sorry, there was an error processing your booking. Please try again or contact our support team.'')))))))"

definition fulfill_book_room :: "(dbl \<Rightarrow> string) \<Rightarrow> world \<Rightarrow> json \<Rightarrow> exn + json" where
  "fulfill_book_room float_str w event =
     (case book_room_body float_str w event of
        Inr response \<Rightarrow> Inr response
      | Inl (KeyError k) \<Rightarrow> close_failed event missing_information
      | Inl e \<Rightarrow> close_failed event unexpected_error)"

text \<open>\<open>fulfill_cancel_booking(event)\<close>, fulfillment hook lines 108 to 149.\<close>

definition cancel_message :: "json \<Rightarrow> string \<Rightarrow> string" where
  "cancel_message booking_number refund =
     ''Your booking '' @ py_str booking_number @ '' has been successfully cancelled.\<newline>\<newline>''
     @ money_sign @ '' Refund: '' @ pound_sign @ refund @ ''\<newline>''
     @ stopwatch_sign @ '' Processing time: 5-7 business days\<newline>\<newline>''
     @ ''You will receive a confirmation email shortly. ''
     @ ''We hope to see you again in the future!''"

definition cancel_booking_body :: "json \<Rightarrow> exn + json" where
  "cancel_booking_body event =
     andthen (py_path event [''sessionState'', ''intent'', ''slots'']) (\<lambda>slots.
     andthen (py_path slots [''BookingNumber'', ''value'', ''interpretedValue'']) (\<lambda>booking_number.
     andthen (get_booking_details booking_number) (\<lambda>booking_details.
     case booking_details of
       None \<Rightarrow>
         close_failed event
           (''I couldn't find a booking with number '' @ py_str booking_number
            @ ''. Please verify and try again.'')
     | Some details \<Rightarrow>
         (let cancellation_result = cancel_booking booking_number in
          if map_of cancellation_result ''success'' = Some (J (JBool True)) then
            (let refund_amount =
                   (case map_of details ''total_price'' of Some v \<Rightarrow> v | None \<Rightarrow> J (JInt 0))
             in andthen (py_format_2f refund_amount) (\<lambda>refund.
                close_fulfilled event (cancel_message booking_number refund) JNull))
          else
            close_failed event
              (''There was an error cancelling booking '' @ py_str booking_number
               @ ''. Please contact our support team.'')))))"

definition fulfill_cancel_booking :: "json \<Rightarrow> exn + json" where
  "fulfill_cancel_booking event =
     (case cancel_booking_body event of
        Inr response \<Rightarrow> Inr response
      | Inl (KeyError k) \<Rightarrow>
          close_failed event ''I need a booking number to process the cancellation.''
      | Inl e \<Rightarrow> close_failed event ''An unexpected error occurred. Please contact support.'')"

text \<open>\<open>lambda_handler(event, context)\<close> of the fulfillment hook: the route by intent name.\<close>

definition fulfillment_lambda_handler :: "(dbl \<Rightarrow> string) \<Rightarrow> world \<Rightarrow> json \<Rightarrow> exn + json" where
  "fulfillment_lambda_handler float_str w event =
     andthen (py_path event [''sessionState'', ''intent'', ''name'']) (\<lambda>intent_name.
     if intent_name = JStr ''BookRoom'' then fulfill_book_room float_str w event
     else if intent_name = JStr ''CancelBooking'' then fulfill_cancel_booking event
     else close_failed event ''I'm sorry, I couldn't process that request.'')"

section \<open>The simple booking fulfillment\<close>

text \<open>
  \<open>close_fulfilled(event, message, session_attributes=None, booking_number=None)\<close> of
  \<open>booking_fulfillment.py\<close>: it also stores the booking number as slot \<open>BookingNumber\<close>
  of the intent when that slot is absent or \<open>None\<close>. The slots are part of the intent,
  so the intent of the response holds the updated slots.
\<close>

definition booking_number_slot :: "string \<Rightarrow> json" where
  "booking_number_slot booking_number =
     JDict [(''shape'', JStr ''Scalar''),
            (''value'', JDict [(''originalValue'', JStr booking_number),
                               (''interpretedValue'', JStr booking_number),
                               (''resolvedValues'', JList [JStr booking_number])])]"

definition store_booking_number :: "json \<Rightarrow> string \<Rightarrow> exn + json" where
  "store_booking_number intent booking_number =
     andthen (if booking_number \<noteq> [] then py_in ''slots'' intent else Inr False) (\<lambda>has_slots.
     if has_slots then
       andthen (py_getitem intent ''slots'') (\<lambda>slots.
       andthen (py_in ''BookingNumber'' slots) (\<lambda>present.
       andthen (if present then andthen (py_getitem slots ''BookingNumber'') (\<lambda>s. Inr (s = JNull))
                else Inr True) (\<lambda>absent.
       if absent then
         andthen (py_setitem slots ''BookingNumber'' (booking_number_slot booking_number)) (\<lambda>slots'.
         py_setitem intent ''slots'' slots')
       else Inr intent)))
     else Inr intent)"

definition close_fulfilled_simple :: "json \<Rightarrow> string \<Rightarrow> json \<Rightarrow> string \<Rightarrow> exn + json" where
  "close_fulfilled_simple event message session_attributes booking_number =
     andthen (py_path event [''sessionState'', ''intent'']) (\<lambda>intent.
     andthen (py_setitem intent ''state'' (JStr ''Fulfilled'')) (\<lambda>intent1.
     andthen (store_booking_number intent1 booking_number) (\<lambda>intent2.
     Inr (JDict
       [(''sessionState'', JDict
           ([(''dialogAction'', JDict [(''type'', JStr ''Close'')]),
             (''intent'', intent2)]
            @ (if truthy session_attributes
               then [(''sessionAttributes'', session_attributes)] else []))),
        (''messages'', plain_text message)]))))"

text \<open>\<open>fulfill_booking(event)\<close>, \<open>booking_fulfillment.py\<close> lines 35 to 98.\<close>

definition booking_message :: "json \<Rightarrow> json \<Rightarrow> int \<Rightarrow> dbl \<Rightarrow> string \<Rightarrow> string" where
  "booking_message room_type check_in_display nights total_price booking_number =
     ''Excellent! Your '' @ py_str room_type @ '' room has been successfully booked.\<newline>\<newline>''
     @ calendar_sign @ '' Check-in: '' @ py_str check_in_display @ ''\<newline>''
     @ moon_sign @ '' Duration: '' @ str_int nights @ '' night'' @ plural_s nights @ ''\<newline>''
     @ money_sign @ '' Total: '' @ pound_sign @ format_2f total_price @ ''\<newline>''
     @ ticket_sign @ '' Confirmation Number: '' @ booking_number @ ''\<newline>\<newline>''
     @ ''A confirmation email will be sent shortly. We look forward to welcoming you!''"

definition booking_body :: "(dbl \<Rightarrow> string) \<Rightarrow> world \<Rightarrow> json \<Rightarrow> exn + json" where
  "booking_body float_str w event =
     andthen (py_path event [''sessionState'', ''intent'', ''slots'']) (\<lambda>slots.
     andthen (py_path slots [''RoomType'', ''value'', ''interpretedValue'']) (\<lambda>room_type.
     andthen (py_path slots [''CheckInDate'', ''value'', ''interpretedValue'']) (\<lambda>check_in_date.
     andthen (py_path slots [''Nights'', ''value'', ''interpretedValue'']) (\<lambda>nights_value.
     andthen (py_int nights_value) (\<lambda>nights.
     let booking_number = generate_booking_number (uuid_draws w) in
     andthen (py_lower room_type) (\<lambda>key.
     andthen (float_times_int (price_per_night key) nights) (\<lambda>total_price.
     let check_in_display = format_date_for_display check_in_date;
         message = booking_message room_type check_in_display nights total_price booking_number;
         session_attributes =
           JDict [(''lastBookingNumber'', JStr booking_number),
                  (''lastBookingTotal'', JStr (float_str total_price))]
     in close_fulfilled_simple event message session_attributes booking_number)))))))"

definition fulfill_booking :: "(dbl \<Rightarrow> string) \<Rightarrow> world \<Rightarrow> json \<Rightarrow> exn + json" where
  "fulfill_booking float_str w event =
     (case booking_body float_str w event of
        Inr response \<Rightarrow> Inr response
      | Inl (KeyError k) \<Rightarrow> close_failed event missing_information
      | Inl e \<Rightarrow> close_failed event unexpected_error)"

definition booking_lambda_handler :: "(dbl \<Rightarrow> string) \<Rightarrow> world \<Rightarrow> json \<Rightarrow> exn + json" where
  "booking_lambda_handler float_str w event =
     andthen (py_path event [''sessionState'', ''intent'', ''name'']) (\<lambda>intent_name.
     if intent_name = JStr ''BookRoom'' then fulfill_booking float_str w event
     else close_failed event ''I'm sorry, I couldn't process that request.'')"

section \<open>The dialog hook\<close>

text \<open>The three responses of \<open>dialog_hook.py\<close>: \<open>delegate\<close>, \<open>elicit_slot\<close> and \<open>close\<close>.\<close>

definition delegate :: "json \<Rightarrow> exn + json" where
  "delegate event =
     andthen (py_path event [''sessionState'', ''intent'']) (\<lambda>intent.
     Inr (JDict
       [(''sessionState'', JDict
           [(''dialogAction'', JDict [(''type'', JStr ''Delegate'')]),
            (''intent'', intent)])]))"

definition elicit_slot :: "json \<Rightarrow> string \<Rightarrow> string \<Rightarrow> exn + json" where
  "elicit_slot event slot_to_elicit message =
     andthen (py_path event [''sessionState'', ''intent'']) (\<lambda>intent.
     Inr (JDict
       [(''sessionState'', JDict
           [(''dialogAction'', JDict [(''type'', JStr ''ElicitSlot''),
                                      (''slotToElicit'', JStr slot_to_elicit)]),
            (''intent'', intent)]),
        (''messages'', plain_text message)]))"

definition close :: "json \<Rightarrow> string \<Rightarrow> string \<Rightarrow> exn + json" where
  "close event fulfillment_state message =
     andthen (py_path event [''sessionState'', ''intent'']) (\<lambda>intent.
     andthen (py_setitem intent ''state'' (JStr fulfillment_state)) (\<lambda>intent'.
     Inr (JDict
       [(''sessionState'', JDict
           [(''dialogAction'', JDict [(''type'', JStr ''Close'')]),
            (''intent'', intent')]),
        (''messages'', plain_text message)])))"

text \<open>The test \<open>slots.get(k) and slots[k].get('value')\<close> that guards every rule.\<close>

definition slot_filled :: "json \<Rightarrow> string \<Rightarrow> exn + bool" where
  "slot_filled slots k =
     andthen (py_get slots k JNull) (\<lambda>s.
     if truthy s then
       andthen (py_getitem slots k) (\<lambda>s'.
       andthen (py_get s' ''value'' JNull) (\<lambda>v. Inr (truthy v)))
     else Inr False)"

text \<open>
  \<open>all(slots.get(slot) and slots[slot].get('value') for slot in names)\<close>: the test on
  each name in turn, stopping at the first that is false.
\<close>

fun all_filled :: "json \<Rightarrow> string list \<Rightarrow> exn + bool" where
  "all_filled slots [] = Inr True"
| "all_filled slots (k # ks) =
     andthen (slot_filled slots k) (\<lambda>f. if f then all_filled slots ks else Inr False)"

text \<open>
  Arithmetic and order on points in time: \<open>t + timedelta(days=n)\<close>, which raises
  \<open>OverflowError\<close> past the last day of the calendar, and \<open>a < b\<close>.
\<close>

definition plus_days :: "datetime \<Rightarrow> nat \<Rightarrow> exn + datetime" where
  "plus_days t n =
     (if max_ordinal < ordinal t + n then Inl (OverflowError ''date value out of range'')
      else Inr (t\<lparr>ordinal := ordinal t + n\<rparr>))"

definition datetime_less :: "datetime \<Rightarrow> datetime \<Rightarrow> bool" where
  "datetime_less a b = (ordinal a < ordinal b \<or> (ordinal a = ordinal b \<and> micros a < micros b))"

text \<open>The simulated backend of the dialog hook.\<close>

definition check_room_availability :: "world \<Rightarrow> json \<Rightarrow> bool" where
  "check_room_availability w room_type = [True, True, True, False] ! (random_choice w mod 4)"

definition verify_booking_exists :: "json \<Rightarrow> exn + bool" where
  "verify_booking_exists booking_number =
     andthen (py_first booking_number) (\<lambda>c.
     andthen (py_upper c) (\<lambda>u. Inr (u = ''A'' \<or> u = ''B'')))"

definition get_available_rooms :: "world \<Rightarrow> json \<Rightarrow> int" where
  "get_available_rooms w room_type = 1 + int (random_randint w mod 10)"

text \<open>
  \<open>handle_book_room_dialog(event)\<close>, dialog hook lines 42 to 123. The function returns from
  the first rule that is violated; each rule is a function that gives \<open>Some\<close> response
  where the source returns and \<open>None\<close> where it goes on, and \<open>or_continue\<close> chains them.
\<close>

definition or_continue :: "exn + json option \<Rightarrow> exn + json \<Rightarrow> exn + json" where
  "or_continue m rest =
     andthen m (\<lambda>r. case r of Some response \<Rightarrow> Inr response | None \<Rightarrow> rest)"

definition returning :: "exn + json \<Rightarrow> exn + json option" where
  "returning m = andthen m (\<lambda>response. Inr (Some response))"

definition validate_room_type :: "json \<Rightarrow> json \<Rightarrow> exn + json option" where
  "validate_room_type event slots =
     andthen (slot_filled slots ''RoomType'') (\<lambda>filled.
     if filled then
       andthen (py_path slots [''RoomType'', ''value'', ''interpretedValue'']) (\<lambda>room_type.
       andthen (py_lower room_type) (\<lambda>l.
       if l \<notin> set [''single'', ''double'', ''suite''] then
         returning (elicit_slot event ''RoomType''
           ''I'm sorry, we only have single, double, or suite rooms. Which would you prefer?'')
       else Inr None))
     else Inr None)"

definition validate_check_in_date :: "world \<Rightarrow> json \<Rightarrow> json \<Rightarrow> exn + json option" where
  "validate_check_in_date w event slots =
     andthen (slot_filled slots ''CheckInDate'') (\<lambda>filled.
     if filled then
       andthen (py_path slots [''CheckInDate'', ''value'', ''interpretedValue'']) (\<lambda>check_in_date_str.
       case strptime check_in_date_str of
         Inl (ValueError m) \<Rightarrow>
           returning (elicit_slot event ''CheckInDate''
             ''I couldn't understand that date. Please provide the check-in date in DD/MM/YYYY format.'')
       | Inl e \<Rightarrow> Inl e
       | Inr (y, m, d) \<Rightarrow>
           (let check_in_date = \<lparr>ordinal = ymd_ordinal y m d, micros = 0\<rparr>;
                today = now w
            in if ordinal check_in_date < ordinal today then
                 returning (elicit_slot event ''CheckInDate''
                   ''The check-in date cannot be in the past. Please provide a future date.'')
               else
                 andthen (plus_days today 365) (\<lambda>max_future_date.
                 if datetime_less max_future_date check_in_date then
                   returning (elicit_slot event ''CheckInDate''
                     ''We can only accept bookings up to one year in advance. Please choose an earlier date.'')
                 else Inr None)))
     else Inr None)"

definition validate_nights :: "json \<Rightarrow> json \<Rightarrow> exn + json option" where
  "validate_nights event slots =
     andthen (slot_filled slots ''Nights'') (\<lambda>filled.
     if filled then
       andthen (py_path slots [''Nights'', ''value'', ''interpretedValue'']) (\<lambda>nights_value.
       case py_int nights_value of
         Inl (ValueError m) \<Rightarrow>
           returning (elicit_slot event ''Nights'' ''Please provide a valid number of nights.'')
       | Inl e \<Rightarrow> Inl e
       | Inr nights \<Rightarrow>
           if nights < 1 then
             returning (elicit_slot event ''Nights''
               ''You must book at least one night. How many nights would you like to stay?'')
           else if 30 < nights then
             returning (elicit_slot event ''Nights''
               ''We can only accept bookings up to 30 nights. For longer stays, please contact our reservations team.'')
           else Inr None)
     else Inr None)"

definition unavailable_message :: "json \<Rightarrow> string" where
  "unavailable_message room_type =
     ''I'm sorry, we don't have any '' @ py_str room_type
     @ '' rooms available for those dates. Would you like to try a different room type?''"

definition check_availability :: "world \<Rightarrow> json \<Rightarrow> json \<Rightarrow> exn + json option" where
  "check_availability w event slots =
     andthen (all_filled slots [''RoomType'', ''CheckInDate'', ''Nights'']) (\<lambda>filled.
     if filled then
       andthen (py_path slots [''RoomType'', ''value'', ''interpretedValue'']) (\<lambda>room_type.
       if \<not> check_room_availability w room_type then
         returning (elicit_slot event ''RoomType'' (unavailable_message room_type))
       else Inr None)
     else Inr None)"

definition handle_book_room_dialog :: "world \<Rightarrow> json \<Rightarrow> exn + json" where
  "handle_book_room_dialog w event =
     andthen (py_path event [''sessionState'', ''intent'', ''slots'']) (\<lambda>slots.
     or_continue (validate_room_type event slots)
    (or_continue (validate_check_in_date w event slots)
    (or_continue (validate_nights event slots)
    (or_continue (check_availability w event slots)
    (delegate event)))))"

text \<open>\<open>handle_cancel_booking_dialog(event)\<close>, dialog hook lines 126 to 149.\<close>

definition handle_cancel_booking_dialog :: "json \<Rightarrow> exn + json" where
  "handle_cancel_booking_dialog event =
     andthen (py_path event [''sessionState'', ''intent'', ''slots'']) (\<lambda>slots.
     andthen (slot_filled slots ''BookingNumber'') (\<lambda>filled.
     if filled then
       andthen (py_path slots [''BookingNumber'', ''value'', ''interpretedValue'']) (\<lambda>booking_number.
       andthen (py_isalnum booking_number) (\<lambda>alnum.
       andthen (if alnum then andthen (py_len booking_number) (\<lambda>n. Inr (n < 6 \<or> 8 < n))
                else Inr True) (\<lambda>malformed.
       if malformed then
         elicit_slot event ''BookingNumber''
           ''That doesn't look like a valid booking number. Booking numbers are 6-8 alphanumeric characters. Please try again.''
       else
         andthen (verify_booking_exists booking_number) (\<lambda>found.
         if \<not> found then
           elicit_slot event ''BookingNumber''
             (''I couldn't find a booking with number '' @ py_str booking_number
              @ ''. Please verify and try again.'')
         else delegate event))))
     else delegate event))"

text \<open>\<open>handle_check_availability_dialog(event)\<close>, dialog hook lines 152 to 174.\<close>

definition handle_check_availability_dialog :: "world \<Rightarrow> json \<Rightarrow> exn + json" where
  "handle_check_availability_dialog w event =
     andthen (py_path event [''sessionState'', ''intent'', ''slots'']) (\<lambda>slots.
     andthen (slot_filled slots ''RoomType'') (\<lambda>filled.
     if filled then
       andthen (py_path slots [''RoomType'', ''value'', ''interpretedValue'']) (\<lambda>room_type.
       let available_count = get_available_rooms w room_type;
           message = ''We currently have '' @ str_int available_count @ '' '' @ py_str room_type
                     @ '' rooms available.''
       in close event ''Fulfilled'' message)
     else
       close event ''Fulfilled''
         ''We have rooms available across all our room types. Would you like to book one?''))"

text \<open>\<open>lambda_handler(event, context)\<close> of the dialog hook.\<close>

definition dialog_lambda_handler :: "world \<Rightarrow> json \<Rightarrow> exn + json" where
  "dialog_lambda_handler w event =
     andthen (py_path event [''sessionState'', ''intent'', ''name'']) (\<lambda>intent_name.
     andthen (py_getitem event ''invocationSource'') (\<lambda>invocation_source.
     if intent_name = JStr ''BookRoom'' then handle_book_room_dialog w event
     else if intent_name = JStr ''CancelBooking'' then handle_cancel_booking_dialog event
     else if intent_name = JStr ''CheckAvailability'' then handle_check_availability_dialog w event
     else delegate event))"

section \<open>Reading events and responses\<close>

text \<open>
  The parts of a slot mapping and of a response that the properties speak about, read
  with the subscripts of the model.
\<close>

definition returns :: "exn + 'a \<Rightarrow> bool" where
  "returns m = (case m of Inr x \<Rightarrow> True | Inl e \<Rightarrow> False)"

definition slot_missing :: "json \<Rightarrow> string \<Rightarrow> bool" where
  "slot_missing slots k = (case slots of JDict kvs \<Rightarrow> map_of kvs k = None | _ \<Rightarrow> False)"

definition slot_value :: "json \<Rightarrow> string \<Rightarrow> exn + json" where
  "slot_value slots k = py_path slots [k, ''value'', ''interpretedValue'']"

definition response_action :: "json \<Rightarrow> exn + json" where
  "response_action r = py_path r [''sessionState'', ''dialogAction'', ''type'']"

definition response_slot_to_elicit :: "json \<Rightarrow> exn + json" where
  "response_slot_to_elicit r = py_path r [''sessionState'', ''dialogAction'', ''slotToElicit'']"

definition response_state :: "json \<Rightarrow> exn + json" where
  "response_state r = py_path r [''sessionState'', ''intent'', ''state'']"

definition response_message :: "json \<Rightarrow> exn + json" where
  "response_message r =
     andthen (py_getitem r ''messages'') (\<lambda>ms.
     andthen (py_first ms) (\<lambda>m. py_getitem m ''content''))"

definition first_char_in :: "string \<Rightarrow> string \<Rightarrow> bool" where
  "first_char_in s cs = (case s of [] \<Rightarrow> False | c # r \<Rightarrow> c \<in> set cs)"

definition booking_found :: "json \<Rightarrow> bool" where
  "booking_found booking_number =
     (case get_booking_details booking_number of Inr (Some details) \<Rightarrow> True | _ \<Rightarrow> False)"

definition booking_succeeds :: "world \<Rightarrow> bool" where
  "booking_succeeds w = fst (create_booking w [])"

definition session_attributes_writable :: "json \<Rightarrow> bool" where
  "session_attributes_writable event =
     (case py_get event ''sessionAttributes'' (JDict []) of Inr (JDict kvs) \<Rightarrow> True | _ \<Rightarrow> False)"

text \<open>
  A field rule passes when its slot is not filled, or is filled with a value that the
  rule accepts: a room type that is single, double or suite in lower case; a date that
  \<open>strptime\<close> parses and that lies from today to 365 days after today; a number of
  nights that \<open>int\<close> converts and that lies from 1 to 30.
\<close>

definition room_type_passes :: "json \<Rightarrow> bool" where
  "room_type_passes slots =
     (case slot_filled slots ''RoomType'' of
        Inr filled \<Rightarrow>
          (if filled then
             (case slot_value slots ''RoomType'' of
                Inr (JStr s) \<Rightarrow> lower s \<in> set [''single'', ''double'', ''suite'']
              | _ \<Rightarrow> False)
           else True)
      | Inl e \<Rightarrow> False)"

definition check_in_date_passes :: "world \<Rightarrow> json \<Rightarrow> bool" where
  "check_in_date_passes w slots =
     (case slot_filled slots ''CheckInDate'' of
        Inr filled \<Rightarrow>
          (if filled then
             (case slot_value slots ''CheckInDate'' of
                Inr (JStr s) \<Rightarrow>
                  (case strptime_ymd s of
                     Some (y, m, d) \<Rightarrow>
                       ordinal (now w) \<le> ymd_ordinal y m d
                       \<and> ymd_ordinal y m d \<le> ordinal (now w) + 365
                   | None \<Rightarrow> False)
              | _ \<Rightarrow> False)
           else True)
      | Inl e \<Rightarrow> False)"

definition nights_passes :: "json \<Rightarrow> bool" where
  "nights_passes slots =
     (case slot_filled slots ''Nights'' of
        Inr filled \<Rightarrow>
          (if filled then
             (case andthen (slot_value slots ''Nights'') py_int of
                Inr n \<Rightarrow> 1 \<le> n \<and> n \<le> 30
              | Inl e \<Rightarrow> False)
           else True)
      | Inl e \<Rightarrow> False)"

subsection \<open>Sample inputs\<close>

text \<open>
  A conversational event of intent \<open>name\<close> with the given slot mapping, a filled slot,
  and surroundings in which every random draw is \<open>k\<close> and every UUID is drawn from
  zero bytes. \<open>sample_float_str\<close> stands for \<open>str\<close> on floats where a concrete function
  is needed.
\<close>

definition lex_event :: "string \<Rightarrow> (string \<times> json) list \<Rightarrow> json" where
  "lex_event name slots =
     JDict [(''sessionState'', JDict [(''intent'', JDict [(''name'', JStr name), (''slots'', JDict slots)])]),
            (''invocationSource'', JStr ''FulfillmentCodeHook'')]"

definition filled_slot :: "string \<Rightarrow> json" where
  "filled_slot s = JDict [(''value'', JDict [(''originalValue'', JStr s), (''interpretedValue'', JStr s)])]"

definition zero_bytes :: "nat \<Rightarrow> 128 word" where
  "zero_bytes i = 0"

definition no_variable :: "string \<Rightarrow> string option" where
  "no_variable name = None"

definition every_library :: "string \<Rightarrow> bool" where
  "every_library name = True"

definition unreachable :: "json \<Rightarrow> exn + int \<times> json" where
  "unreachable url = Inl (RequestException ''connection refused'')"

definition sample_world :: "nat \<Rightarrow> world" where
  "sample_world k =
     \<lparr>now = \<lparr>ordinal = 739690, micros = 43200000000\<rparr>,
      now_isoformat = ''2026-03-15T12:00:00'',
      utc_isoformat = ''2026-03-15T12:00:00+00:00'',
      environ = no_variable,
      importable = every_library,
      uuid_draws = zero_bytes,
      random_choice = k,
      random_random = k,
      random_randint = k,
      list_buckets = Inr 0,
      requests_get = unreachable\<rparr>"

definition double_3_slots :: "(string \<times> json) list" where
  "double_3_slots =
     [(''RoomType'', filled_slot ''double''), (''CheckInDate'', filled_slot ''2026-03-15''),
      (''Nights'', filled_slot ''3'')]"

definition suite_event :: json where
  "suite_event = lex_event ''BookRoom'' [(''RoomType'', filled_slot ''Suite'')]"

definition penthouse_event :: json where
  "penthouse_event = lex_event ''BookRoom'' [(''RoomType'', filled_slot ''penthouse'')]"

definition check_in_event :: "string \<Rightarrow> json" where
  "check_in_event s = lex_event ''BookRoom'' [(''CheckInDate'', filled_slot s)]"

definition penthouse_yesterday_event :: json where
  "penthouse_yesterday_event =
     lex_event ''BookRoom''
       [(''RoomType'', filled_slot ''penthouse''), (''CheckInDate'', filled_slot ''2026-03-14'')]"

definition full_slots :: "(string \<times> json) list" where
  "full_slots =
     [(''RoomType'', filled_slot ''double''), (''CheckInDate'', filled_slot ''2026-04-02''),
      (''Nights'', filled_slot ''3'')]"

definition sample_float_str :: "dbl \<Rightarrow> string" where
  "sample_float_str x = format_2f x"

section \<open>Properties\<close>

lemma andthen_simps [simp]:
  "andthen (Inl e) f = Inl e"
  "andthen (Inr x) f = f x"
  by (simp_all add: andthen_def)

subsection \<open>Decimal text\<close>

lemma chr_digit: "d < 10 \<Longrightarrow> is_digit (chr (48 + d))"
  by (simp add: is_digit_def chr_def)

lemma chr_upper: "k < 26 \<Longrightarrow> is_upper (chr (65 + k))"
  by (simp add: is_upper_def chr_def)

lemma str_nat_digits: "list_all is_digit (str_nat n)"
proof (induction n rule: str_nat.induct)
  case (1 n)
  show ?case
  proof (cases "n < 10")
    case True
    then show ?thesis by (subst str_nat.simps) (simp add: chr_digit)
  next
    case False
    have "n mod 10 < 10" by simp
    then have "is_digit (chr (48 + n mod 10))" by (rule chr_digit)
    with False 1 show ?thesis by (subst str_nat.simps) simp
  qed
qed

lemma str_nat_length: "10 ^ k \<le> n \<Longrightarrow> k < length (str_nat n)"
proof (induction k arbitrary: n)
  case 0
  show ?case by (subst str_nat.simps) simp
next
  case (Suc k)
  from Suc.prems have ge: "10 \<le> n"
    by (metis One_nat_def le_trans one_le_numeral one_le_power power_Suc0_right power_increasing zero_less_Suc Suc_leI)
  from Suc.prems have "10 ^ k \<le> n div 10"
    by (simp add: less_eq_div_iff_mult_less_eq mult.commute)
  then have "k < length (str_nat (n div 10))" by (rule Suc.IH)
  with ge show ?case by (subst str_nat.simps) simp
qed

lemma of_char_chr: "n < 256 \<Longrightarrow> (of_char (chr n) :: nat) = n"
  by (simp add: chr_def)

lemma chr_eq_iff: "m < 256 \<Longrightarrow> n < 256 \<Longrightarrow> (chr m = chr n) = (m = n)"
  by (metis of_char_chr)

lemma char_as_chr: "c = chr (of_char c)"
  by (simp add: chr_def)

lemma digit_val_chr: "k < 10 \<Longrightarrow> digit_val (chr (48 + k)) = k"
  by (simp add: digit_val_def chr_def)

lemma nonzero_digit_chr: "k < 10 \<Longrightarrow> nonzero_digit (chr (48 + k)) = (k \<noteq> 0)"
proof -
  assume k: "k < 10"
  have "CHR ''0'' = chr 48" by (simp add: chr_def char_of_def bit_simps)
  then have "(chr (48 + k) = CHR ''0'') = (k = 0)" using k by (simp add: chr_eq_iff)
  with k show ?thesis by (simp add: nonzero_digit_def chr_digit)
qed

lemma str_nat_1: "n < 10 \<Longrightarrow> str_nat n = [chr (48 + n)]"
  by (subst str_nat.simps) simp

lemma str_nat_2: "10 \<le> n \<Longrightarrow> n < 100 \<Longrightarrow> str_nat n = [chr (48 + n div 10), chr (48 + n mod 10)]"
  by (subst str_nat.simps) (simp add: str_nat_1)

lemma str_nat_3: "100 \<le> n \<Longrightarrow> n < 1000 \<Longrightarrow>
  str_nat n = [chr (48 + n div 100), chr (48 + n div 10 mod 10), chr (48 + n mod 10)]"
  by (subst str_nat.simps) (simp add: str_nat_2 div_mult2_eq [symmetric] less_eq_div_iff_mult_less_eq)

lemma str_nat_4: "1000 \<le> n \<Longrightarrow> n < 10000 \<Longrightarrow>
  str_nat n = [chr (48 + n div 1000), chr (48 + n div 100 mod 10), chr (48 + n div 10 mod 10), chr (48 + n mod 10)]"
  by (subst str_nat.simps) (simp add: str_nat_3 div_mult2_eq [symmetric] less_eq_div_iff_mult_less_eq)

lemma chr_48: "chr 48 = CHR ''0''"
  by (simp add: chr_def char_of_def bit_simps)

lemma replicate_123:
  "replicate (Suc 0) c = [c]" "replicate 2 c = [c, c]" "replicate 3 c = [c, c, c]"
  by (simp_all add: numeral_2_eq_2 numeral_3_eq_3)

lemma zfill2: "n < 100 \<Longrightarrow> zfill 2 (str_nat n) = [chr (48 + n div 10), chr (48 + n mod 10)]"
  by (cases "n < 10") (simp_all add: zfill_def str_nat_1 str_nat_2 chr_48)

lemma zfill4: "n < 10000 \<Longrightarrow> zfill 4 (str_nat n) =
   [chr (48 + n div 1000), chr (48 + n div 100 mod 10), chr (48 + n div 10 mod 10), chr (48 + n mod 10)]"
proof -
  assume n: "n < 10000"
  consider "n < 10" | "10 \<le> n" "n < 100" | "100 \<le> n" "n < 1000" | "1000 \<le> n" by linarith
  then show ?thesis
  proof cases
    case 1 then show ?thesis by (simp add: zfill_def str_nat_1 replicate_123 chr_48)
  next
    case 2 then show ?thesis by (simp add: zfill_def str_nat_2 replicate_123 chr_48)
  next
    case 3 then show ?thesis by (simp add: zfill_def str_nat_3 replicate_123 chr_48)
  next
    case 4 with n show ?thesis by (simp add: zfill_def str_nat_4)
  qed
qed

subsection \<open>Booking numbers\<close>

lemma uuid4_int_lower: "2 ^ 78 \<le> uuid4_int r"
proof -
  define x :: "128 word" where
    "x = ((r AND NOT (push_bit 48 0xc000)) OR push_bit 48 0x8000) AND NOT (push_bit 64 0xf000)"
  have "(push_bit 76 4 :: 128 word) \<le> x OR push_bit 76 4"
    by (simp add: le_word_or1 or.commute)
  then have "unat (push_bit 76 4 :: 128 word) \<le> unat (x OR push_bit 76 4)"
    by (simp add: word_le_nat_alt)
  moreover have "unat (push_bit 76 4 :: 128 word) = 2 ^ 78" by simp
  ultimately show ?thesis by (simp add: uuid4_int_def x_def)
qed

text \<open>
  C3. Every booking identifier that \<open>generate_booking_number\<close> returns is three upper-case
  letters A-Z followed by five decimal digits, whatever random bytes the four UUIDs are
  drawn from.
\<close>

theorem generate_booking_number_format: "booking_format (generate_booking_number draws)"
proof -
  let ?n = "uuid4_int (draws 3)"
  have "(10::nat) ^ 4 \<le> 2 ^ 78" by simp
  then have "(10::nat) ^ 4 \<le> ?n" using uuid4_int_lower [of "draws 3"] by linarith
  then have len: "4 < length (str_nat ?n)" by (rule str_nat_length)
  have dig: "list_all is_digit (take 5 (str_nat ?n))"
    using str_nat_digits [of ?n] by (simp add: list_all_iff) (meson in_set_takeD)
  have up: "\<And>k. is_upper (chr (65 + k mod 26))" by (rule chr_upper) simp
  from len dig up show ?thesis
    by (simp add: booking_format_def generate_booking_number_def Let_def min_def)
qed

subsection \<open>Dates\<close>

lemma chr_eq_char: "n < 256 \<Longrightarrow> (chr n = c) = (n = of_char c)"
  by (metis of_char_chr char_as_chr)

lemma digit_val_chr_n: "n < 256 \<Longrightarrow> digit_val (chr n) = n - 48"
  by (simp add: digit_val_def chr_def)

lemma is_digit_chr_n: "n < 256 \<Longrightarrow> is_digit (chr n) = (48 \<le> n \<and> n \<le> 57)"
  by (simp add: is_digit_def chr_def)

lemma nonzero_digit_chr_n: "n < 256 \<Longrightarrow> nonzero_digit (chr n) = (49 \<le> n \<and> n \<le> 57)"
  by (auto simp add: nonzero_digit_def is_digit_chr_n chr_eq_char)

lemmas chr_n = chr_eq_char digit_val_chr_n is_digit_chr_n nonzero_digit_chr_n

lemma parse_month_iso:
  assumes "1 \<le> m" "m \<le> 12"
  shows "parse_month (zfill 2 (str_nat m) @ r) = Some (m, r)"
proof (cases "m < 10")
  case True
  with assms show ?thesis
    by (simp add: zfill2 chr_n)
next
  case False
  with assms have 1: "m div 10 = 1" by simp
  from False assms have 2: "m mod 10 < 3" by presburger
  from False assms have 3: "10 + m mod 10 = m" by presburger
  from 1 2 3 assms show ?thesis
    by (simp add: zfill2 chr_n) linarith
qed


lemma parse_day_iso:
  assumes "1 \<le> d" "d \<le> 31"
  shows "parse_day (zfill 2 (str_nat d)) = Some (d, [])"
proof -
  have r: "d mod 10 < 10" "10 * (d div 10) + d mod 10 = d" by simp_all
  consider "d < 10" | "10 \<le> d" "d < 20" | "20 \<le> d" "d < 30" | "30 \<le> d" by linarith
  then show ?thesis
  proof cases
    case 1
    with assms show ?thesis
      by (simp add: zfill2 chr_n)
  next
    case 2
    then have "d div 10 = 1" by simp
    with 2 r show ?thesis by (simp add: zfill2 chr_n)
  next
    case 3
    then have "d div 10 = 2" by simp
    with 3 r show ?thesis by (simp add: zfill2 chr_n)
  next
    case 4
    with assms have q: "d div 10 = 3" by simp
    with r assms have "d mod 10 < 2" by linarith
    with q r assms show ?thesis
      by (simp add: zfill2 chr_n) linarith
  qed
qed


lemma days_in_month_le: "days_in_month y m \<le> 31"
  by (simp add: days_in_month_def)

lemma year_digits:
  "1000 * (y div 1000) + 100 * (y div 100 mod 10) + 10 * (y div 10 mod 10) + y mod 10 = (y::nat)"
proof -
  have a: "y = 10 * (y div 10) + y mod 10" by simp
  have "y div 10 div 10 = y div 100" "y div 100 div 10 = y div 1000"
    by (simp_all add: div_mult2_eq [symmetric])
  then have b: "y div 10 = 10 * (y div 100) + y div 10 mod 10"
    and c: "y div 100 = 10 * (y div 1000) + y div 100 mod 10"
    using div_mult_mod_eq [of "y div 10" 10] div_mult_mod_eq [of "y div 100" 10] by simp_all
  from a b c show ?thesis by linarith
qed

lemma strptime_isoformat:
  assumes "valid_date (y, m, d)"
  shows "strptime_ymd (isoformat_ymd (y, m, d)) = Some (y, m, d)"
proof -
  from assms have y: "1 \<le> y" "y < 10000" and m: "1 \<le> m" "m \<le> 12"
    and d: "1 \<le> d" "d \<le> days_in_month y m"
    by (simp_all add: valid_date_def)
  from d have d31: "d \<le> 31" using days_in_month_le [of y m] by linarith
  have pm: "parse_month (zfill 2 (str_nat m) @ CHR ''-'' # zfill 2 (str_nat d))
      = Some (m, CHR ''-'' # zfill 2 (str_nat d))"
    using m by (rule parse_month_iso)
  have pd: "parse_day (zfill 2 (str_nat d)) = Some (d, [])"
    using d(1) d31 by (rule parse_day_iso)
  have yd: "y div 1000 < 10" using y by simp
  have dv: "digit_val (chr (48 + y div 1000)) = y div 1000"
    "digit_val (chr (48 + y div 100 mod 10)) = y div 100 mod 10"
    "digit_val (chr (48 + y div 10 mod 10)) = y div 10 mod 10"
    "digit_val (chr (48 + y mod 10)) = y mod 10"
    using yd by (simp_all add: digit_val_chr)
  have dg: "is_digit (chr (48 + y div 1000))" "is_digit (chr (48 + y div 100 mod 10))"
    "is_digit (chr (48 + y div 10 mod 10))" "is_digit (chr (48 + y mod 10))"
    using yd by (simp_all add: chr_digit)
  have iso: "isoformat_ymd (y, m, d) =
      chr (48 + y div 1000) # chr (48 + y div 100 mod 10) # chr (48 + y div 10 mod 10)
        # chr (48 + y mod 10) # CHR ''-'' # (zfill 2 (str_nat m) @ CHR ''-'' # zfill 2 (str_nat d))"
    using y by (simp add: isoformat_ymd_def zfill4)
  show ?thesis
    unfolding iso strptime_ymd_def
    using y d by (simp only: list.case dg dv pm pd year_digits Let_def option.case prod.case
      simp_thms if_True)
qed



subsection \<open>Subscripts and responses\<close>

declare py_path.simps [simp del]

lemma returns_simps [simp]: "returns (Inr x)" "\<not> returns (Inl e)"
  by (simp_all add: returns_def)

lemma returns_iff: "returns m = (\<exists>x. m = Inr x)"
  by (cases m) simp_all

lemma py_getitem_dict [simp]:
  "py_getitem (JDict kvs) k = (case map_of kvs k of Some x \<Rightarrow> Inr x | None \<Rightarrow> Inl (KeyError (repr_str k)))"
  by (simp add: py_getitem_def)

lemma py_getitem_Inr: "(py_getitem v k = Inr x) = (\<exists>kvs. v = JDict kvs \<and> map_of kvs k = Some x)"
  by (auto simp: py_getitem_def split: json.splits option.splits)

lemma py_path_Cons_Inr:
  "(py_path v (k # ks) = Inr r) = (\<exists>x. py_getitem v k = Inr x \<and> py_path x ks = Inr r)"
  by (cases "py_getitem v k") (auto simp: py_path.simps)

lemma py_path_Nil_Inr [simp]: "py_path v [] = Inr v"
  by (simp add: py_path.simps)

lemma py_path_dict:
  "py_path (JDict kvs) (k # ks) =
     (case map_of kvs k of Some x \<Rightarrow> py_path x ks | None \<Rightarrow> Inl (KeyError (repr_str k)))"
  by (simp add: py_path.simps split: option.splits)

lemma py_path_append:
  "py_path v (ks @ ks') = andthen (py_path v ks) (\<lambda>x. py_path x ks')"
  by (induction ks arbitrary: v) (auto simp: py_path.simps andthen_def split: sum.splits)

lemma map_of_dict_set: "map_of (dict_set kvs k v) k' = (if k' = k then Some v else map_of kvs k')"
  by (induction kvs) auto

lemma py_setitem_dict [simp]: "py_setitem (JDict kvs) k x = Inr (JDict (dict_set kvs k x))"
  by (simp add: py_setitem_def)

lemma close_failed_dict:
  assumes "py_path event [''sessionState'', ''intent''] = Inr (JDict ikvs)"
  shows "close_failed event message =
    Inr (JDict [(''sessionState'', JDict [(''dialogAction'', JDict [(''type'', JStr ''Close'')]),
                                          (''intent'', JDict (dict_set ikvs ''state'' (JStr ''Failed'')))]),
                (''messages'', plain_text message)])"
  using assms by (simp add: close_failed_def)

lemma close_failed_observed:
  assumes "py_path event [''sessionState'', ''intent''] = Inr (JDict ikvs)"
  shows "\<exists>r. close_failed event message = Inr r \<and> response_action r = Inr (JStr ''Close'')
     \<and> response_state r = Inr (JStr ''Failed'') \<and> response_message r = Inr (JStr message)"
  by (simp add: close_failed_dict [OF assms] response_action_def response_state_def
      response_message_def map_of_dict_set plain_text_def py_first_def py_path_dict)


lemma intent_of_path:
  assumes "py_path event [''sessionState'', ''intent'', k] = Inr x"
  shows "\<exists>ikvs. py_path event [''sessionState'', ''intent''] = Inr (JDict ikvs) \<and> map_of ikvs k = Some x"
proof -
  have "[''sessionState'', ''intent'', k] = [''sessionState'', ''intent''] @ [k]" by simp
  then have "andthen (py_path event [''sessionState'', ''intent'']) (\<lambda>i. py_path i [k]) = Inr x"
    using assms py_path_append by metis
  then show ?thesis
    by (cases "py_path event [''sessionState'', ''intent'']")
       (auto simp: py_path_Cons_Inr py_getitem_Inr)
qed

lemma slot_missing_KeyError:
  assumes "slot_missing slots k"
  shows "py_path slots (k # ks) = Inl (KeyError (repr_str k))"
  using assms by (auto simp: slot_missing_def py_path_dict split: json.splits)

lemma missing_slot_KeyError:
  assumes a: "slot_missing slots ''RoomType'' \<or> slot_missing slots ''CheckInDate''
              \<or> slot_missing slots ''Nights''"
    and r: "slot_missing slots ''RoomType'' \<or> returns (slot_value slots ''RoomType'')"
    and c: "slot_missing slots ''CheckInDate'' \<or> returns (slot_value slots ''CheckInDate'')"
  shows "\<exists>k. andthen (py_path slots [''RoomType'', ''value'', ''interpretedValue'']) (\<lambda>room_type.
     andthen (py_path slots [''CheckInDate'', ''value'', ''interpretedValue'']) (\<lambda>check_in_date.
     andthen (py_path slots [''Nights'', ''value'', ''interpretedValue'']) (f room_type check_in_date)))
     = Inl (KeyError k)"
proof (cases "slot_missing slots ''RoomType''")
  case True
  then show ?thesis by (simp add: slot_missing_KeyError)
next
  case False
  with r obtain rt where rt: "py_path slots [''RoomType'', ''value'', ''interpretedValue''] = Inr rt"
    by (auto simp: returns_iff slot_value_def)
  show ?thesis
  proof (cases "slot_missing slots ''CheckInDate''")
    case True
    then show ?thesis by (simp add: rt slot_missing_KeyError)
  next
    case nc: False
    with c obtain d where d: "py_path slots [''CheckInDate'', ''value'', ''interpretedValue''] = Inr d"
      by (auto simp: returns_iff slot_value_def)
    from a False nc have "slot_missing slots ''Nights''" by simp
    then show ?thesis by (simp add: rt d slot_missing_KeyError)
  qed
qed

lemmas event_eval = lex_event_def filled_slot_def py_path.simps slot_missing_def slot_value_def

subsection \<open>Missing slots in fulfillment\<close>




subsection \<open>Floats of the handlers\<close>

lemma cents: "round_half_even (6860424791740908 * 100) (2 ^ 44) = 38997"
  by (simp add: round_half_even_def Let_def)

lemma chr_digits:
  "chr 48 = CHR ''0''" "chr 49 = CHR ''1''" "chr 50 = CHR ''2''" "chr 51 = CHR ''3''"
  "chr 52 = CHR ''4''" "chr 53 = CHR ''5''" "chr 54 = CHR ''6''" "chr 55 = CHR ''7''"
  "chr 56 = CHR ''8''" "chr 57 = CHR ''9''"
  by (simp_all add: chr_def char_of_def bit_simps)

lemma s389: "str_nat 389 = ''389''"
  by (simp add: str_nat_3 chr_digits)

lemma s97: "zfill 2 (str_nat 97) = ''97''"
  by (simp add: zfill2 chr_digits)

lemma format_38997: "format_2f (Fin 6860424791740908 (- 44)) = ''389.97''"
  by (simp add: format_2f_def round_half_even_def Let_def s389 s97)


lemma round_38997: "round_dbl 38997 100 = Fin 6860424791740908 (- 44)"
proof -
  have b: "bitlen 38997 = 16" "bitlen 100 = 7" by (simp_all add: bitlen.simps)
  have "floor_log2 38997 100 = 8" by (simp add: floor_log2_def b)
  then show ?thesis by (simp add: round_dbl_def round_half_even_def Let_def)
qed

subsection \<open>Cancellation\<close>

lemma upper_chr_AB:
  assumes "n < 256"
  shows "(upper_char (chr n) = ''A'' \<or> upper_char (chr n) = ''B'')
   = (n = 65 \<or> n = 66 \<or> n = 97 \<or> n = 98)"
proof -
  have m: "n - 32 < 256" using assms by simp
  have a: "(chr (n - 32) = CHR ''A'') = (n - 32 = 65)" "(chr (n - 32) = CHR ''B'') = (n - 32 = 66)"
    "(chr n = CHR ''A'') = (n = 65)" "(chr n = CHR ''B'') = (n = 66)"
    using m assms by (simp_all add: chr_eq_char)
  show ?thesis
    unfolding upper_char_def Let_def using assms
    by (simp add: a of_char_chr) linarith
qed

lemma upper_char_AB:
  "(upper_char c = ''A'' \<or> upper_char c = ''B'')
   = (c = CHR ''A'' \<or> c = CHR ''B'' \<or> c = CHR ''a'' \<or> c = CHR ''b'')"
proof -
  have lt: "(of_char c :: nat) < 256" by simp
  have e: "\<And>d. (c = d) = ((of_char c :: nat) = of_char d)" by auto
  from upper_chr_AB [OF lt] show ?thesis
    by (simp add: chr_def e)
qed

lemma booking_found_iff: "booking_found (JStr s) = first_char_in s ''ABab''"
proof (cases s)
  case Nil
  then show ?thesis
    by (simp add: booking_found_def get_booking_details_def py_first_def first_char_in_def)
next
  case (Cons c r)
  have "booking_found (JStr s) = (upper_char c = ''A'' \<or> upper_char c = ''B'')"
    by (simp add: Cons booking_found_def get_booking_details_def py_first_def py_upper_def upper_def)
  also have "\<dots> = first_char_in s ''ABab''"
    by (auto simp: upper_char_AB Cons first_char_in_def)
  finally show ?thesis .
qed

lemma close_fulfilled_observed:
  assumes "py_path event [''sessionState'', ''intent''] = Inr (JDict ikvs)"
  shows "\<exists>r. close_fulfilled event message attrs = Inr r \<and> response_action r = Inr (JStr ''Close'')
     \<and> response_state r = Inr (JStr ''Fulfilled'') \<and> response_message r = Inr (JStr message)"
  using assms
  by (simp add: close_fulfilled_def response_action_def response_state_def
      response_message_def map_of_dict_set plain_text_def py_first_def py_path_dict)

lemma get_booking_details_found:
  assumes "booking_found v"
  shows "get_booking_details v =
     Inr (Some [(''booking_number'', J v), (''room_type'', J (JStr ''double'')),
                (''check_in_date'', J (JStr ''2026-03-15'')), (''nights'', J (JInt 3)),
                (''total_price'', F (round_dbl 38997 100)), (''status'', J (JStr ''confirmed''))])"
  using assms
  by (auto simp: booking_found_def get_booking_details_def andthen_def
      split: sum.splits option.splits if_splits)

text \<open>
  C8 (amended). For a CancelBooking fulfillment event whose BookingNumber slot holds the
  text \<open>s\<close>: the mock lookup finds a booking exactly when \<open>s\<close> starts with one of the
  letters A, B, a, b (the first character is compared in upper case); and whenever the
  booking is found, the handler returns a \<open>Close\<close> response with the intent state
  \<open>Fulfilled\<close> and the cancellation message with the refund 389.97.
\<close>

theorem cancel_booking_lookup:
  "booking_found (JStr s) = first_char_in s ''ABab''
   \<and> (py_path event [''sessionState'', ''intent'', ''name''] = Inr (JStr ''CancelBooking'')
        \<longrightarrow> py_path event [''sessionState'', ''intent'', ''slots''] = Inr slots
        \<longrightarrow> slot_value slots ''BookingNumber'' = Inr (JStr s)
        \<longrightarrow> booking_found (JStr s)
        \<longrightarrow> (\<exists>r. fulfillment_lambda_handler float_str w event = Inr r
               \<and> response_action r = Inr (JStr ''Close'')
               \<and> response_state r = Inr (JStr ''Fulfilled'')
               \<and> response_message r = Inr (JStr (cancel_message (JStr s) ''389.97''))))"
proof (intro conjI impI)
  show "booking_found (JStr s) = first_char_in s ''ABab''" by (rule booking_found_iff)
next
  assume name: "py_path event [''sessionState'', ''intent'', ''name''] = Inr (JStr ''CancelBooking'')"
    and slots: "py_path event [''sessionState'', ''intent'', ''slots''] = Inr slots"
    and number: "slot_value slots ''BookingNumber'' = Inr (JStr s)"
    and found: "booking_found (JStr s)"
  from name obtain ikvs where i: "py_path event [''sessionState'', ''intent''] = Inr (JDict ikvs)"
    using intent_of_path by blast
  have refund: "py_format_2f (F (round_dbl 38997 100)) = Inr ''389.97''"
    by (simp add: py_format_2f_def round_38997 format_38997)
  have "cancel_booking_body event = close_fulfilled event (cancel_message (JStr s) ''389.97'') JNull"
    using number
    by (simp add: cancel_booking_body_def slots slot_value_def get_booking_details_found [OF found]
        cancel_booking_def refund)
  moreover obtain r where "close_fulfilled event (cancel_message (JStr s) ''389.97'') JNull = Inr r"
    "response_action r = Inr (JStr ''Close'')" "response_state r = Inr (JStr ''Fulfilled'')"
    "response_message r = Inr (JStr (cancel_message (JStr s) ''389.97''))"
    using close_fulfilled_observed [OF i] by blast
  ultimately show "\<exists>r. fulfillment_lambda_handler float_str w event = Inr r
               \<and> response_action r = Inr (JStr ''Close'')
               \<and> response_state r = Inr (JStr ''Fulfilled'')
               \<and> response_message r = Inr (JStr (cancel_message (JStr s) ''389.97''))"
    using name by (simp add: fulfillment_lambda_handler_def fulfill_cancel_booking_def)
qed

lemma found_A: "booking_found (JStr ''A1234567'')"
  by (simp add: booking_found_iff first_char_in_def)

theorem cancel_booking_lookup_witness:
  "booking_found (JStr ''A1234567'')
   \<and> first_char_in ''A1234567'' ''ABab''
   \<and> py_path (lex_event ''CancelBooking'' [(''BookingNumber'', filled_slot ''A1234567'')])
         [''sessionState'', ''intent'', ''name''] = Inr (JStr ''CancelBooking'')
   \<and> slot_value (JDict [(''BookingNumber'', filled_slot ''A1234567'')]) ''BookingNumber''
         = Inr (JStr ''A1234567'')
   \<and> (\<exists>r. fulfillment_lambda_handler sample_float_str (sample_world 0)
              (lex_event ''CancelBooking'' [(''BookingNumber'', filled_slot ''A1234567'')]) = Inr r
          \<and> response_action r = Inr (JStr ''Close'')
          \<and> response_state r = Inr (JStr ''Fulfilled'')
          \<and> response_message r = Inr (JStr (cancel_message (JStr ''A1234567'') ''389.97'')))"
proof -
  let ?slots = "JDict [(''BookingNumber'', filled_slot ''A1234567'')]"
  let ?event = "lex_event ''CancelBooking'' [(''BookingNumber'', filled_slot ''A1234567'')]"
  have name: "py_path ?event [''sessionState'', ''intent'', ''name''] = Inr (JStr ''CancelBooking'')"
    by (simp add: event_eval)
  have slots: "py_path ?event [''sessionState'', ''intent'', ''slots''] = Inr ?slots"
    by (simp add: event_eval)
  have number: "slot_value ?slots ''BookingNumber'' = Inr (JStr ''A1234567'')"
    by (simp add: event_eval)
  from cancel_booking_lookup [of "''A1234567''" ?event ?slots sample_float_str "sample_world 0"]
    name slots number found_A
  show ?thesis by blast
qed

text \<open>
  C8 as stated fails for a number that starts with a lower-case letter: \<open>a1234567\<close>
  does not start with A or B, and its booking is found and cancelled.
\<close>

theorem lower_case_booking_is_found:
  "booking_found (JStr ''a1234567'')
   \<and> \<not> first_char_in ''a1234567'' ''AB''
   \<and> andthen (fulfillment_lambda_handler sample_float_str (sample_world 0)
        (lex_event ''CancelBooking'' [(''BookingNumber'', filled_slot ''a1234567'')])) response_state
       = Inr (JStr ''Fulfilled'')"
proof -
  let ?slots = "JDict [(''BookingNumber'', filled_slot ''a1234567'')]"
  let ?event = "lex_event ''CancelBooking'' [(''BookingNumber'', filled_slot ''a1234567'')]"
  have found: "booking_found (JStr ''a1234567'')"
    by (simp add: booking_found_iff first_char_in_def)
  have nf: "\<not> first_char_in ''a1234567'' ''AB''"
    by (simp add: first_char_in_def)
  have name: "py_path ?event [''sessionState'', ''intent'', ''name''] = Inr (JStr ''CancelBooking'')"
    by (simp add: event_eval)
  have slots: "py_path ?event [''sessionState'', ''intent'', ''slots''] = Inr ?slots"
    by (simp add: event_eval)
  have number: "slot_value ?slots ''BookingNumber'' = Inr (JStr ''a1234567'')"
    by (simp add: event_eval)
  have i: "py_path ?event [''sessionState'', ''intent'']
      = Inr (JDict [(''name'', JStr ''CancelBooking''), (''slots'', ?slots)])"
    by (simp add: event_eval)
  have refund: "py_format_2f (F (round_dbl 38997 100)) = Inr ''389.97''"
    by (simp add: py_format_2f_def round_38997 format_38997)
  have "cancel_booking_body ?event = close_fulfilled ?event (cancel_message (JStr ''a1234567'') ''389.97'') JNull"
    using number
    by (simp add: cancel_booking_body_def slots slot_value_def get_booking_details_found [OF found]
        cancel_booking_def refund)
  then have "andthen (fulfillment_lambda_handler sample_float_str (sample_world 0) ?event) response_state
       = Inr (JStr ''Fulfilled'')"
    using close_fulfilled_observed [OF i, of "cancel_message (JStr ''a1234567'') ''389.97''" JNull] name
    by (auto simp add: fulfillment_lambda_handler_def fulfill_cancel_booking_def)
  with found nf show ?thesis by blast
qed

subsection \<open>Prices\<close>

lemma is_prefix_append: "is_prefix sub (sub @ post)"
  by (induction sub) simp_all

lemma contains_append: "contains sub (pre @ sub @ post)"
proof (induction pre)
  case Nil
  show ?case by (cases "sub @ post") (use is_prefix_append [of sub post] in auto)
next
  case (Cons c pre)
  then show ?case by simp
qed

lemma round_12999: "round_dbl 12999 100 = Fin 4573616527827272 (- 45)"
proof -
  have b: "bitlen 12999 = 14" "bitlen 100 = 7" by (simp_all add: bitlen.simps)
  have "floor_log2 12999 100 = 7" by (simp add: floor_log2_def b)
  then show ?thesis by (simp add: round_dbl_def round_half_even_def Let_def)
qed

lemma round_3: "round_dbl 3 1 = Fin 6755399441055744 (- 51)"
proof -
  have b: "bitlen 3 = 2" "bitlen (Suc 0) = 1" by (simp_all add: bitlen.simps)
  have "floor_log2 3 (Suc 0) = 1" by (simp add: floor_log2_def b)
  then show ?thesis by (simp add: round_dbl_def round_half_even_def Let_def)
qed

lemma mul_12999_3:
  "dbl_mul (Fin 4573616527827272 (- 45)) (Fin 6755399441055744 (- 51)) = Fin 6860424791740908 (- 44)"
proof -
  have b: "bitlen 30896606535687665893082155450368 = 105"
    "bitlen 79228162514264337593543950336 = 97"
    by (simp_all add: bitlen.simps)
  have "floor_log2 30896606535687665893082155450368 79228162514264337593543950336 = 8"
    by (simp add: floor_log2_def b)
  then show ?thesis
    by (simp add: dbl_mul_def round_dbl_def round_half_even_def Let_def)
qed

lemma price_double_3:
  "float_times_int (price_per_night ''double'') 3 = Inr (Fin 6860424791740908 (- 44))"
  by (simp add: float_times_int_def float_of_int_def price_per_night_def room_prices_def
      round_12999 round_3 mul_12999_3)

lemma total_double_3_value:
  "\<exists>v. dbl_val (Fin 6860424791740908 (- 44)) = Some v \<and> \<bar>v - 38997 / 100\<bar> < 1 / 10 ^ 12"
proof -
  have "dbl_val (Fin 6860424791740908 (- 44)) = Some (6860424791740908 / 2 ^ 44)"
    by (simp add: dbl_val_def)
  moreover have "\<bar>(6860424791740908 / 2 ^ 44 :: rat) - 38997 / 100\<bar> < 1 / 10 ^ 12"
    by simp
  ultimately show ?thesis by blast
qed

lemma py_path_Inr_dict:
  assumes "py_path v (k # ks) = Inr x"
  shows "\<exists>kvs. v = JDict kvs"
  using assms by (auto simp: py_path_Cons_Inr py_getitem_Inr)

lemma slots_of_path:
  assumes "py_path event [''sessionState'', ''intent'', ''slots''] = Inr slots"
  shows "\<exists>ikvs. py_path event [''sessionState'', ''intent''] = Inr (JDict ikvs)
            \<and> map_of ikvs ''slots'' = Some slots"
  using assms by (rule intent_of_path)

lemma store_booking_number_dict:
  assumes "map_of ikvs ''slots'' = Some (JDict skvs)" "map_of ikvs ''state'' = Some st"
  shows "\<exists>ikvs'. store_booking_number (JDict ikvs) booking_number = Inr (JDict ikvs')
            \<and> map_of ikvs' ''state'' = Some st"
  using assms
  by (auto simp: store_booking_number_def py_in_def map_of_dict_set split: option.splits)

lemma close_fulfilled_simple_observed:
  assumes i: "py_path event [''sessionState'', ''intent''] = Inr (JDict ikvs)"
    and s: "map_of ikvs ''slots'' = Some (JDict skvs)"
  shows "\<exists>r. close_fulfilled_simple event message attrs booking_number = Inr r
     \<and> response_action r = Inr (JStr ''Close'')
     \<and> response_state r = Inr (JStr ''Fulfilled'') \<and> response_message r = Inr (JStr message)"
proof -
  have "map_of (dict_set ikvs ''state'' (JStr ''Fulfilled'')) ''slots'' = Some (JDict skvs)"
    "map_of (dict_set ikvs ''state'' (JStr ''Fulfilled'')) ''state'' = Some (JStr ''Fulfilled'')"
    using s by (simp_all add: map_of_dict_set)
  then obtain ikvs' where
    "store_booking_number (JDict (dict_set ikvs ''state'' (JStr ''Fulfilled''))) booking_number
       = Inr (JDict ikvs')" "map_of ikvs' ''state'' = Some (JStr ''Fulfilled'')"
    using store_booking_number_dict by blast
  then show ?thesis
    using i
    by (simp add: close_fulfilled_simple_def response_action_def response_state_def
      response_message_def plain_text_def py_first_def py_path_dict)
qed

lemma create_booking_success: "fst (create_booking w booking_data) = booking_succeeds w"
  by (simp add: create_booking_def booking_succeeds_def Let_def)

lemma booking_message_total:
  "contains (''Total: '' @ pound_sign @ format_2f total_price)
     (booking_message room_type check_in_display nights total_price booking_number)"
proof -
  have "booking_message room_type check_in_display nights total_price booking_number
      = (''Excellent! Your '' @ py_str room_type @ '' room has been successfully booked.\<newline>\<newline>''
         @ calendar_sign @ '' Check-in: '' @ py_str check_in_display @ ''\<newline>''
         @ moon_sign @ '' Duration: '' @ str_int nights @ '' night'' @ plural_s nights @ ''\<newline>''
         @ money_sign @ '' '')
        @ (''Total: '' @ pound_sign @ format_2f total_price)
        @ (''\<newline>'' @ ticket_sign @ '' Confirmation Number: '' @ booking_number @ ''\<newline>\<newline>''
         @ ''A confirmation email will be sent shortly. We look forward to welcoming you!'')"
    by (simp add: booking_message_def)
  then show ?thesis by (simp only: contains_append)
qed

lemma book_room_message_total:
  "contains (''Total: '' @ pound_sign @ format_2f total_price)
     (book_room_message room_type check_in_display nights total_price booking_number)"
proof -
  have "book_room_message room_type check_in_display nights total_price booking_number
      = (''Excellent! Your '' @ py_str room_type @ '' room has been successfully booked.\<newline>\<newline>''
         @ calendar_sign @ '' Check-in: '' @ py_str check_in_display @ ''\<newline>''
         @ moon_sign @ '' Duration: '' @ str_int nights @ '' night'' @ plural_s nights @ ''\<newline>''
         @ money_sign @ '' '')
        @ (''Total: '' @ pound_sign @ format_2f total_price)
        @ (''\<newline>'' @ ticket_sign @ '' Confirmation: '' @ booking_number @ ''\<newline>\<newline>''
         @ ''A confirmation email has been sent. We look forward to welcoming you!'')"
    by (simp add: book_room_message_def)
  then show ?thesis by (simp only: contains_append)
qed

lemma contains_trans_append: "contains sub m \<Longrightarrow> contains sub (pre @ m @ post)"
proof (induction pre)
  case Nil
  then show ?case
  proof (induction m)
    case Nil
    then show ?case by (cases post) auto
  next
    case (Cons c m)
    have p: "\<And>a b. is_prefix a b \<Longrightarrow> is_prefix a (b @ post)"
    proof -
      fix a b show "is_prefix a b \<Longrightarrow> is_prefix a (b @ post)"
        by (induction a b rule: is_prefix.induct) auto
    qed
    from Cons show ?case by (auto dest: p)
  qed
next
  case (Cons c pre)
  then show ?case by simp
qed

lemma is_prefix_iff: "is_prefix a b = (\<exists>post. b = a @ post)"
  by (induction a b rule: is_prefix.induct) auto

lemma contains_iff: "contains sub s = (\<exists>pre post. s = pre @ sub @ post)"
proof
  assume "contains sub s"
  then show "\<exists>pre post. s = pre @ sub @ post"
  proof (induction s)
    case Nil
    then show ?case by simp
  next
    case (Cons c cs)
    show ?case
    proof (cases "is_prefix sub (c # cs)")
      case True
      then obtain post where "c # cs = sub @ post" by (auto simp: is_prefix_iff)
      then have "c # cs = [] @ sub @ post" by simp
      then show ?thesis by blast
    next
      case False
      with Cons.prems have "contains sub cs" by simp
      then obtain pre post where "cs = pre @ sub @ post" using Cons.IH by blast
      then have "c # cs = (c # pre) @ sub @ post" by simp
      then show ?thesis by blast
    qed
  qed
next
  assume "\<exists>pre post. s = pre @ sub @ post"
  then show "contains sub s" by (auto simp: contains_append)
qed

lemma contains_trans: "contains a b \<Longrightarrow> contains b c \<Longrightarrow> contains a c"
proof -
  assume "contains a b" "contains b c"
  then obtain p1 q1 p2 q2 where "b = p1 @ a @ q1" "c = p2 @ b @ q2"
    by (auto simp: contains_iff)
  then have "c = (p2 @ p1) @ a @ (q1 @ q2)" by simp
  then show ?thesis by (simp only: contains_append)
qed

lemma contains_suffix: "contains sub (pre @ sub)"
  using contains_append [of sub pre "[]"] by simp

lemma round_98: "round_dbl 98 100 = Fin 8827055269646172 (- 53)"
proof -
  have b: "bitlen 98 = 7" "bitlen 100 = 7" by (simp_all add: bitlen.simps)
  have "floor_log2 98 100 = - 1" by (simp add: floor_log2_def b)
  then show ?thesis by (simp add: round_dbl_def round_half_even_def Let_def)
qed

lemma booking_succeeds_0: "booking_succeeds (sample_world 0)"
  by (simp add: booking_succeeds_def create_booking_def py_random_def sample_world_def
      round_98 dbl_less_def)

lemma booking_fails_max: "\<not> booking_succeeds (sample_world 9007199254740991)"
  by (simp add: booking_succeeds_def create_booking_def py_random_def sample_world_def
      round_98 dbl_less_def)

lemma py_int_3: "py_int (JStr ''3'') = Inr 3"
  by (simp add: py_int_def int_of_str_def strip_def is_space_def parse_unsigned_def
      is_digit_def digit_val_def)

lemma lower_double: "lower ''double'' = ''double''"
  by (simp add: lower_def lower_char_def)

lemma double_3_paths:
  "py_path (lex_event ''BookRoom'' double_3_slots) [''sessionState'', ''intent'', ''name'']
     = Inr (JStr ''BookRoom'')"
  "py_path (lex_event ''BookRoom'' double_3_slots) [''sessionState'', ''intent'', ''slots'']
     = Inr (JDict double_3_slots)"
  "slot_value (JDict double_3_slots) ''RoomType'' = Inr (JStr ''double'')"
  "slot_value (JDict double_3_slots) ''CheckInDate'' = Inr (JStr ''2026-03-15'')"
  "slot_value (JDict double_3_slots) ''Nights'' = Inr (JStr ''3'')"
  "session_attributes_writable (lex_event ''BookRoom'' double_3_slots)"
  by (simp_all add: event_eval double_3_slots_def session_attributes_writable_def py_get_def)




subsection \<open>The room type rule\<close>

lemma slot_value_Inr:
  "(slot_value slots k = Inr v) =
     (\<exists>skvs d vd. slots = JDict skvs \<and> map_of skvs k = Some (JDict d)
        \<and> map_of d ''value'' = Some (JDict vd) \<and> map_of vd ''interpretedValue'' = Some v)"
  by (auto simp: slot_value_def py_path_Cons_Inr py_getitem_Inr)

lemma slot_value_filled:
  assumes "slot_value slots k = Inr v"
  shows "slot_filled slots k = Inr True"
  using assms
  by (auto simp: slot_value_Inr slot_filled_def py_get_def truthy_def)

lemma elicit_slot_observed:
  assumes "py_path event [''sessionState'', ''intent''] = Inr i"
  shows "\<exists>r. elicit_slot event k message = Inr r
     \<and> response_action r = Inr (JStr ''ElicitSlot'')
     \<and> response_slot_to_elicit r = Inr (JStr k)
     \<and> response_message r = Inr (JStr message)"
  using assms
  by (simp add: elicit_slot_def response_action_def response_slot_to_elicit_def
      response_message_def plain_text_def py_first_def py_path_dict)

lemma delegate_observed:
  assumes "py_path event [''sessionState'', ''intent''] = Inr i"
  shows "\<exists>r. delegate event = Inr r
     \<and> response_action r = Inr (JStr ''Delegate'')
     \<and> response_slot_to_elicit r = Inl (KeyError (repr_str ''slotToElicit''))"
  using assms
  by (simp add: delegate_def response_action_def response_slot_to_elicit_def py_path_dict)

lemma or_continue_simps [simp]:
  "or_continue (Inl e) rest = Inl e"
  "or_continue (Inr (Some r)) rest = Inr r"
  "or_continue (Inr None) rest = rest"
  by (simp_all add: or_continue_def)

lemma returning_simps [simp]:
  "returning (Inl e) = Inl e"
  "returning (Inr r) = Inr (Some r)"
  by (simp_all add: returning_def)

text \<open>
  C5 (amended). For a BookRoom dialog event whose RoomType slot holds a text that, in
  lower case, is none of single, double and suite, the validator returns an
  \<open>ElicitSlot\<close> response that names slot RoomType and carries the correction message;
  the handler of the dialog hook gives that response for every such event of intent
  BookRoom that has an invocation source.
\<close>

theorem invalid_room_type_is_elicited:
  assumes slots: "py_path event [''sessionState'', ''intent'', ''slots''] = Inr slots"
    and rt: "slot_value slots ''RoomType'' = Inr (JStr s)"
    and bad: "lower s \<notin> set [''single'', ''double'', ''suite'']"
  shows "(\<exists>r. handle_book_room_dialog w event = Inr r
            \<and> response_action r = Inr (JStr ''ElicitSlot'')
            \<and> response_slot_to_elicit r = Inr (JStr ''RoomType'')
            \<and> response_message r = Inr (JStr
                 ''I'm sorry, we only have single, double, or suite rooms. Which would you prefer?''))
       \<and> (py_path event [''sessionState'', ''intent'', ''name''] = Inr (JStr ''BookRoom'')
            \<and> returns (py_getitem event ''invocationSource'')
          \<longrightarrow> dialog_lambda_handler w event = handle_book_room_dialog w event)"
proof (intro conjI impI)
  let ?msg = "''I'm sorry, we only have single, double, or suite rooms. Which would you prefer?''"
  from slots obtain i where i: "py_path event [''sessionState'', ''intent''] = Inr i"
    using intent_of_path by blast
  obtain r where r: "elicit_slot event ''RoomType'' ?msg = Inr r"
    "response_action r = Inr (JStr ''ElicitSlot'')"
    "response_slot_to_elicit r = Inr (JStr ''RoomType'')"
    "response_message r = Inr (JStr ?msg)"
    using elicit_slot_observed [OF i] by blast
  have "validate_room_type event slots = Inr (Some r)"
    using bad
    by (simp add: validate_room_type_def slot_value_filled [OF rt] rt [unfolded slot_value_def]
        py_lower_def r(1))
  then have "handle_book_room_dialog w event = Inr r"
    by (simp add: handle_book_room_dialog_def slots)
  with r show "\<exists>r. handle_book_room_dialog w event = Inr r
            \<and> response_action r = Inr (JStr ''ElicitSlot'')
            \<and> response_slot_to_elicit r = Inr (JStr ''RoomType'')
            \<and> response_message r = Inr (JStr ?msg)"
    by blast
next
  assume "py_path event [''sessionState'', ''intent'', ''name''] = Inr (JStr ''BookRoom'')
            \<and> returns (py_getitem event ''invocationSource'')"
  then show "dialog_lambda_handler w event = handle_book_room_dialog w event"
    by (auto simp: dialog_lambda_handler_def returns_iff)
qed

theorem invalid_room_type_is_elicited_witness:
  "slot_value (JDict [(''RoomType'', filled_slot ''penthouse'')]) ''RoomType'' = Inr (JStr ''penthouse'')
   \<and> lower ''penthouse'' \<notin> set [''single'', ''double'', ''suite'']
   \<and> returns (py_getitem penthouse_event ''invocationSource'')
   \<and> (\<exists>r. dialog_lambda_handler (sample_world 0) penthouse_event = Inr r
            \<and> response_action r = Inr (JStr ''ElicitSlot'')
            \<and> response_slot_to_elicit r = Inr (JStr ''RoomType'')
            \<and> response_message r = Inr (JStr
                 ''I'm sorry, we only have single, double, or suite rooms. Which would you prefer?''))"
proof -
  let ?slots = "JDict [(''RoomType'', filled_slot ''penthouse'')]"
  have name: "py_path penthouse_event [''sessionState'', ''intent'', ''name''] = Inr (JStr ''BookRoom'')"
    by (simp add: penthouse_event_def event_eval)
  have slots: "py_path penthouse_event [''sessionState'', ''intent'', ''slots''] = Inr ?slots"
    by (simp add: penthouse_event_def event_eval)
  have rt: "slot_value ?slots ''RoomType'' = Inr (JStr ''penthouse'')"
    by (simp add: event_eval)
  have bad: "lower ''penthouse'' \<notin> set [''single'', ''double'', ''suite'']"
    by (simp add: lower_def lower_char_def)
  have src: "returns (py_getitem penthouse_event ''invocationSource'')"
    by (simp add: penthouse_event_def lex_event_def)
  from invalid_room_type_is_elicited [OF slots rt bad, of "sample_world 0"] name src
  have "\<exists>r. dialog_lambda_handler (sample_world 0) penthouse_event = Inr r
            \<and> response_action r = Inr (JStr ''ElicitSlot'')
            \<and> response_slot_to_elicit r = Inr (JStr ''RoomType'')
            \<and> response_message r = Inr (JStr
                 ''I'm sorry, we only have single, double, or suite rooms. Which would you prefer?'')"
    by simp
  with rt bad src show ?thesis by blast
qed

text \<open>
  C5 as stated fails for a value that differs from the three names in case only: the
  room type is lower-cased before it is compared, so \<open>Suite\<close>, which is not in
  \<open>{single, double, suite}\<close>, is accepted and the validator delegates.
\<close>

theorem capitalised_room_type_is_accepted:
  "slot_value (JDict [(''RoomType'', filled_slot ''Suite'')]) ''RoomType'' = Inr (JStr ''Suite'')
   \<and> ''Suite'' \<notin> set [''single'', ''double'', ''suite'']
   \<and> andthen (dialog_lambda_handler (sample_world 0) suite_event) response_action
       = Inr (JStr ''Delegate'')"
proof -
  let ?slots = "JDict [(''RoomType'', filled_slot ''Suite'')]"
  have rt: "slot_value ?slots ''RoomType'' = Inr (JStr ''Suite'')"
    by (simp add: event_eval)
  have f: "slot_filled ?slots ''RoomType'' = Inr True"
    "slot_filled ?slots ''CheckInDate'' = Inr False"
    "slot_filled ?slots ''Nights'' = Inr False"
    by (simp_all add: slot_filled_def py_get_def truthy_def filled_slot_def)
  have l: "lower ''Suite'' = ''suite''"
    by (simp add: lower_def lower_char_def chr_def char_of_def bit_simps)
  have slots: "py_path suite_event [''sessionState'', ''intent'', ''slots''] = Inr ?slots"
    by (simp add: suite_event_def lex_event_def py_path.simps)
  have "handle_book_room_dialog (sample_world 0) suite_event = delegate suite_event"
    by (simp add: handle_book_room_dialog_def slots validate_room_type_def
        validate_check_in_date_def validate_nights_def check_availability_def f py_lower_def l
        rt [unfolded slot_value_def])
  moreover have "andthen (delegate suite_event) response_action = Inr (JStr ''Delegate'')"
    by (simp add: delegate_def suite_event_def event_eval response_action_def)
  ultimately show ?thesis
    using rt by (simp add: dialog_lambda_handler_def suite_event_def event_eval)
qed

subsection \<open>The check-in date rule\<close>

lemma room_type_passes_validates:
  assumes "room_type_passes slots"
  shows "validate_room_type event slots = Inr None"
  using assms
  by (auto simp: room_type_passes_def validate_room_type_def slot_value_def py_lower_def
      split: sum.splits json.splits if_splits)

lemma elicit_slot_names:
  assumes "elicit_slot event k message = Inr r"
  shows "response_slot_to_elicit r = Inr (JStr k)"
  using assms
  by (auto simp: elicit_slot_def response_slot_to_elicit_def py_path_dict andthen_def
      split: sum.splits)

lemma returning_Some: "(returning m = Inr (Some r)) = (m = Inr r)"
  by (cases m) auto

lemma returning_not_None [simp]: "returning m \<noteq> Inr None"
  by (cases m) auto

lemma validate_nights_names:
  assumes "validate_nights event slots = Inr (Some r)"
  shows "response_slot_to_elicit r = Inr (JStr ''Nights'')"
  using assms
  by (auto simp: validate_nights_def andthen_def returning_Some elicit_slot_names
      split: sum.splits if_splits exn.splits)

lemma check_availability_names:
  assumes "check_availability w event slots = Inr (Some r)"
  shows "response_slot_to_elicit r = Inr (JStr ''RoomType'')"
  using assms
  by (auto simp: check_availability_def andthen_def returning_Some elicit_slot_names
      split: sum.splits if_splits)

lemma delegate_names:
  assumes "delegate event = Inr r"
  shows "response_slot_to_elicit r = Inl (KeyError (repr_str ''slotToElicit''))"
  using assms
  by (auto simp: delegate_def response_slot_to_elicit_def py_path_dict andthen_def
      split: sum.splits)

lemma or_continue_Inr:
  "(or_continue m rest = Inr r) = (m = Inr (Some r) \<or> (m = Inr None \<and> rest = Inr r))"
  by (cases m) (auto simp: or_continue_def split: option.splits)

text \<open>
  C6 (amended). For a BookRoom dialog event whose RoomType slot passes its rule (or is
  not filled) and whose CheckInDate slot holds a text that parses to the date \<open>D\<close>, with
  a clock at least 365 days before the last day of the calendar: if \<open>D\<close> is before today
  the validator re-elicits CheckInDate with the message about the past; if \<open>D\<close> is more
  than 365 days after today it re-elicits CheckInDate with the message about one year;
  if \<open>D\<close> lies from today to today plus 365 days the date rule returns nothing, and
  whatever the validator then returns does not elicit CheckInDate.
\<close>

theorem check_in_date_rule:
  assumes slots: "py_path event [''sessionState'', ''intent'', ''slots''] = Inr slots"
    and room: "room_type_passes slots"
    and ci: "slot_value slots ''CheckInDate'' = Inr (JStr s)"
    and parse: "strptime_ymd s = Some (y, m, d)"
    and clock: "ordinal (now w) + 365 \<le> max_ordinal"
  shows "(ymd_ordinal y m d < ordinal (now w) \<longrightarrow>
            (\<exists>r. handle_book_room_dialog w event = Inr r
               \<and> response_action r = Inr (JStr ''ElicitSlot'')
               \<and> response_slot_to_elicit r = Inr (JStr ''CheckInDate'')
               \<and> response_message r = Inr (JStr
                    ''The check-in date cannot be in the past. Please provide a future date.'')))
       \<and> (ordinal (now w) + 365 < ymd_ordinal y m d \<longrightarrow>
            (\<exists>r. handle_book_room_dialog w event = Inr r
               \<and> response_action r = Inr (JStr ''ElicitSlot'')
               \<and> response_slot_to_elicit r = Inr (JStr ''CheckInDate'')
               \<and> response_message r = Inr (JStr
                    ''We can only accept bookings up to one year in advance. Please choose an earlier date.'')))
       \<and> (ordinal (now w) \<le> ymd_ordinal y m d \<and> ymd_ordinal y m d \<le> ordinal (now w) + 365 \<longrightarrow>
            validate_check_in_date w event slots = Inr None
            \<and> (\<forall>r. handle_book_room_dialog w event = Inr r
                  \<longrightarrow> response_slot_to_elicit r \<noteq> Inr (JStr ''CheckInDate'')))"
proof (intro conjI impI allI)
  let ?past = "''The check-in date cannot be in the past. Please provide a future date.''"
  let ?far = "''We can only accept bookings up to one year in advance. Please choose an earlier date.''"
  from slots obtain i where i: "py_path event [''sessionState'', ''intent''] = Inr i"
    using intent_of_path by blast
  note rtv = room_type_passes_validates [OF room, of event]
  note filled = slot_value_filled [OF ci]
  note path = ci [unfolded slot_value_def]
  have plus: "plus_days (now w) 365 = Inr ((now w)\<lparr>ordinal := ordinal (now w) + 365\<rparr>)"
    using clock by (simp add: plus_days_def)
  {
    assume a: "ymd_ordinal y m d < ordinal (now w)"
    obtain r where r: "elicit_slot event ''CheckInDate'' ?past = Inr r"
      "response_action r = Inr (JStr ''ElicitSlot'')"
      "response_slot_to_elicit r = Inr (JStr ''CheckInDate'')"
      "response_message r = Inr (JStr ?past)"
      using elicit_slot_observed [OF i] by blast
    have "validate_check_in_date w event slots = Inr (Some r)"
      using a by (simp add: validate_check_in_date_def filled path strptime_def parse Let_def r(1))
    then have "handle_book_room_dialog w event = Inr r"
      by (simp add: handle_book_room_dialog_def slots rtv)
    with r show "\<exists>r. handle_book_room_dialog w event = Inr r
               \<and> response_action r = Inr (JStr ''ElicitSlot'')
               \<and> response_slot_to_elicit r = Inr (JStr ''CheckInDate'')
               \<and> response_message r = Inr (JStr ?past)"
      by blast
  }
  {
    assume a: "ordinal (now w) + 365 < ymd_ordinal y m d"
    obtain r where r: "elicit_slot event ''CheckInDate'' ?far = Inr r"
      "response_action r = Inr (JStr ''ElicitSlot'')"
      "response_slot_to_elicit r = Inr (JStr ''CheckInDate'')"
      "response_message r = Inr (JStr ?far)"
      using elicit_slot_observed [OF i] by blast
    have "validate_check_in_date w event slots = Inr (Some r)"
      using a
      by (simp add: validate_check_in_date_def filled path strptime_def parse Let_def r(1)
          plus datetime_less_def)
    then have "handle_book_room_dialog w event = Inr r"
      by (simp add: handle_book_room_dialog_def slots rtv)
    with r show "\<exists>r. handle_book_room_dialog w event = Inr r
               \<and> response_action r = Inr (JStr ''ElicitSlot'')
               \<and> response_slot_to_elicit r = Inr (JStr ''CheckInDate'')
               \<and> response_message r = Inr (JStr ?far)"
      by blast
  }
  {
    assume a: "ordinal (now w) \<le> ymd_ordinal y m d \<and> ymd_ordinal y m d \<le> ordinal (now w) + 365"
    then show v: "validate_check_in_date w event slots = Inr None"
      by (simp add: validate_check_in_date_def filled path strptime_def parse Let_def
          plus datetime_less_def)
    fix r assume "handle_book_room_dialog w event = Inr r"
    then have "validate_nights event slots = Inr (Some r)
        \<or> check_availability w event slots = Inr (Some r) \<or> delegate event = Inr r"
      by (auto simp: handle_book_room_dialog_def slots rtv v or_continue_Inr)
    then show "response_slot_to_elicit r \<noteq> Inr (JStr ''CheckInDate'')"
      using validate_nights_names check_availability_names delegate_names by fastforce
  }
qed

lemmas strptime_eval = strptime_ymd_def is_digit_def digit_val_def nonzero_digit_def
  days_in_month_def is_leap_def

lemmas ordinal_eval = ymd_ordinal_def days_before_year_def days_before_month_def
  days_in_month_def is_leap_def upt_conv_Cons

lemma sample_dates:
  "strptime_ymd ''2026-03-14'' = Some (2026, 3, 14)"
  "strptime_ymd ''2027-03-16'' = Some (2027, 3, 16)"
  "strptime_ymd ''2026-04-02'' = Some (2026, 4, 2)"
  by (simp_all add: strptime_eval)

lemma sample_ordinals:
  "ymd_ordinal 2026 3 14 = 739689"
  "ymd_ordinal 2027 3 16 = 740056"
  "ymd_ordinal 2026 4 2 = 739708"
  by (simp_all add: ordinal_eval)

lemma sample_clock:
  "ordinal (now (sample_world k)) = 739690"
  "ordinal (now (sample_world k)) + 365 \<le> max_ordinal"
  by (simp_all add: sample_world_def max_ordinal_def)

lemma check_in_event_paths:
  "py_path (check_in_event s) [''sessionState'', ''intent'', ''slots'']
     = Inr (JDict [(''CheckInDate'', filled_slot s)])"
  "py_path (check_in_event s) [''sessionState'', ''intent'', ''name''] = Inr (JStr ''BookRoom'')"
  "room_type_passes (JDict [(''CheckInDate'', filled_slot s)])"
  "slot_value (JDict [(''CheckInDate'', filled_slot s)]) ''CheckInDate'' = Inr (JStr s)"
  by (simp_all add: check_in_event_def lex_event_def py_path.simps room_type_passes_def
      slot_filled_def py_get_def truthy_def slot_value_def filled_slot_def)

theorem check_in_date_rule_witness:
  "room_type_passes (JDict [(''CheckInDate'', filled_slot ''2026-03-14'')])
   \<and> strptime_ymd ''2026-03-14'' = Some (2026, 3, 14)
   \<and> ymd_ordinal 2026 3 14 < ordinal (now (sample_world 0))
   \<and> (\<exists>r. handle_book_room_dialog (sample_world 0) (check_in_event ''2026-03-14'') = Inr r
         \<and> response_slot_to_elicit r = Inr (JStr ''CheckInDate'')
         \<and> response_message r = Inr (JStr
              ''The check-in date cannot be in the past. Please provide a future date.''))
   \<and> strptime_ymd ''2027-03-16'' = Some (2027, 3, 16)
   \<and> ordinal (now (sample_world 0)) + 365 < ymd_ordinal 2027 3 16
   \<and> (\<exists>r. handle_book_room_dialog (sample_world 0) (check_in_event ''2027-03-16'') = Inr r
         \<and> response_slot_to_elicit r = Inr (JStr ''CheckInDate'')
         \<and> response_message r = Inr (JStr
              ''We can only accept bookings up to one year in advance. Please choose an earlier date.''))
   \<and> strptime_ymd ''2026-04-02'' = Some (2026, 4, 2)
   \<and> ordinal (now (sample_world 0)) \<le> ymd_ordinal 2026 4 2
   \<and> ymd_ordinal 2026 4 2 \<le> ordinal (now (sample_world 0)) + 365
   \<and> validate_check_in_date (sample_world 0) (check_in_event ''2026-04-02'')
         (JDict [(''CheckInDate'', filled_slot ''2026-04-02'')]) = Inr None"
proof -
  note a = check_in_date_rule [OF check_in_event_paths(1) check_in_event_paths(3)
      check_in_event_paths(4) sample_dates(1) sample_clock(2), of 0]
  note b = check_in_date_rule [OF check_in_event_paths(1) check_in_event_paths(3)
      check_in_event_paths(4) sample_dates(2) sample_clock(2), of 0]
  note c = check_in_date_rule [OF check_in_event_paths(1) check_in_event_paths(3)
      check_in_event_paths(4) sample_dates(3) sample_clock(2), of 0]
  have o: "ymd_ordinal 2026 3 14 < ordinal (now (sample_world 0))"
    "ordinal (now (sample_world 0)) + 365 < ymd_ordinal 2027 3 16"
    "ordinal (now (sample_world 0)) \<le> ymd_ordinal 2026 4 2"
    "ymd_ordinal 2026 4 2 \<le> ordinal (now (sample_world 0)) + 365"
    by (simp_all add: sample_ordinals sample_clock)
  from a o(1) have 1: "\<exists>r. handle_book_room_dialog (sample_world 0) (check_in_event ''2026-03-14'') = Inr r
         \<and> response_slot_to_elicit r = Inr (JStr ''CheckInDate'')
         \<and> response_message r = Inr (JStr
              ''The check-in date cannot be in the past. Please provide a future date.'')"
    by blast
  from b o(2) have 2: "\<exists>r. handle_book_room_dialog (sample_world 0) (check_in_event ''2027-03-16'') = Inr r
         \<and> response_slot_to_elicit r = Inr (JStr ''CheckInDate'')
         \<and> response_message r = Inr (JStr
              ''We can only accept bookings up to one year in advance. Please choose an earlier date.'')"
    by blast
  from c o(3) o(4) have 3: "validate_check_in_date (sample_world 0) (check_in_event ''2026-04-02'')
         (JDict [(''CheckInDate'', filled_slot ''2026-04-02'')]) = Inr None"
    by blast
  from 1 2 3 o sample_dates check_in_event_paths(3) [of "''2026-03-14''"] show ?thesis by blast
qed

text \<open>
  C6 as stated fails when the RoomType slot is filled with an invalid value: the rules
  are applied in the order RoomType, CheckInDate, Nights and the validator returns from
  the first violation, so a past check-in date is not reported.
\<close>

theorem invalid_room_type_comes_first:
  "slot_value (JDict [(''RoomType'', filled_slot ''penthouse''), (''CheckInDate'', filled_slot ''2026-03-14'')])
      ''CheckInDate'' = Inr (JStr ''2026-03-14'')
   \<and> strptime_ymd ''2026-03-14'' = Some (2026, 3, 14)
   \<and> ymd_ordinal 2026 3 14 < ordinal (now (sample_world 0))
   \<and> andthen (dialog_lambda_handler (sample_world 0) penthouse_yesterday_event)
         response_slot_to_elicit = Inr (JStr ''RoomType'')"
proof -
  let ?slots = "JDict [(''RoomType'', filled_slot ''penthouse''), (''CheckInDate'', filled_slot ''2026-03-14'')]"
  let ?msg = "''I'm sorry, we only have single, double, or suite rooms. Which would you prefer?''"
  have ci: "slot_value ?slots ''CheckInDate'' = Inr (JStr ''2026-03-14'')"
    by (simp add: event_eval)
  have slots: "py_path penthouse_yesterday_event [''sessionState'', ''intent'', ''slots''] = Inr ?slots"
    by (simp add: penthouse_yesterday_event_def lex_event_def py_path.simps)
  have name: "py_path penthouse_yesterday_event [''sessionState'', ''intent'', ''name'']
      = Inr (JStr ''BookRoom'')"
    by (simp add: penthouse_yesterday_event_def lex_event_def py_path.simps)
  have src: "returns (py_getitem penthouse_yesterday_event ''invocationSource'')"
    by (simp add: penthouse_yesterday_event_def lex_event_def)
  have rt: "slot_value ?slots ''RoomType'' = Inr (JStr ''penthouse'')"
    by (simp add: event_eval)
  have bad: "lower ''penthouse'' \<notin> set [''single'', ''double'', ''suite'']"
    by (simp add: lower_def lower_char_def)
  from slots obtain i where i: "py_path penthouse_yesterday_event [''sessionState'', ''intent''] = Inr i"
    using intent_of_path by blast
  obtain r where r: "elicit_slot penthouse_yesterday_event ''RoomType'' ?msg = Inr r"
    "response_slot_to_elicit r = Inr (JStr ''RoomType'')"
    using elicit_slot_observed [OF i] by blast
  have "validate_room_type penthouse_yesterday_event ?slots = Inr (Some r)"
    using bad
    by (simp add: validate_room_type_def slot_value_filled [OF rt] rt [unfolded slot_value_def]
        py_lower_def r(1))
  then have "handle_book_room_dialog (sample_world 0) penthouse_yesterday_event = Inr r"
    by (simp add: handle_book_room_dialog_def slots)
  then have "andthen (dialog_lambda_handler (sample_world 0) penthouse_yesterday_event)
         response_slot_to_elicit = Inr (JStr ''RoomType'')"
    using name src r(2) by (auto simp: dialog_lambda_handler_def returns_iff)
  with ci sample_dates(1) show ?thesis
    by (simp add: sample_ordinals sample_clock)
qed

subsection \<open>The outcome of the validator\<close>

lemma check_in_date_passes_validates:
  assumes "check_in_date_passes w slots" "ordinal (now w) + 365 \<le> max_ordinal"
  shows "validate_check_in_date w event slots = Inr None"
  using assms
  by (auto simp: check_in_date_passes_def validate_check_in_date_def slot_value_def
      strptime_def plus_days_def datetime_less_def Let_def
      split: sum.splits json.splits if_splits option.splits)

lemma nights_passes_validates:
  assumes "nights_passes slots"
  shows "validate_nights event slots = Inr None"
  using assms
  by (auto simp: nights_passes_def validate_nights_def slot_value_def andthen_def
      split: sum.splits if_splits)

lemma passes_filled:
  "room_type_passes slots \<Longrightarrow> returns (slot_filled slots ''RoomType'')"
  "check_in_date_passes w slots \<Longrightarrow> returns (slot_filled slots ''CheckInDate'')"
  "nights_passes slots \<Longrightarrow> returns (slot_filled slots ''Nights'')"
  by (auto simp: room_type_passes_def check_in_date_passes_def nights_passes_def returns_def
      split: sum.splits)

lemma room_type_passes_value:
  assumes "room_type_passes slots" "slot_filled slots ''RoomType'' = Inr True"
  shows "\<exists>s. slot_value slots ''RoomType'' = Inr (JStr s)"
  using assms
  by (auto simp: room_type_passes_def split: sum.splits json.splits)


lemma full_slots_filled:
  "slot_filled (JDict full_slots) ''RoomType'' = Inr True"
  "slot_filled (JDict full_slots) ''CheckInDate'' = Inr True"
  "slot_filled (JDict full_slots) ''Nights'' = Inr True"
  by (simp_all add: full_slots_def slot_filled_def py_get_def truthy_def filled_slot_def)

lemma full_slots_values:
  "slot_value (JDict full_slots) ''RoomType'' = Inr (JStr ''double'')"
  "slot_value (JDict full_slots) ''CheckInDate'' = Inr (JStr ''2026-04-02'')"
  "slot_value (JDict full_slots) ''Nights'' = Inr (JStr ''3'')"
  by (simp_all add: full_slots_def event_eval)

lemma full_slots_pass:
  "room_type_passes (JDict full_slots)"
  "check_in_date_passes (sample_world k) (JDict full_slots)"
  "nights_passes (JDict full_slots)"
  by (simp_all add: room_type_passes_def check_in_date_passes_def nights_passes_def
      full_slots_filled full_slots_values lower_double sample_dates sample_ordinals
      sample_clock py_int_3)

lemma full_slots_all: "all_filled (JDict full_slots) [''RoomType'', ''CheckInDate'', ''Nights''] = Inr True"
  by (simp add: full_slots_filled)

lemma full_event_slots:
  "py_path (lex_event ''BookRoom'' full_slots) [''sessionState'', ''intent'', ''slots'']
     = Inr (JDict full_slots)"
  by (simp add: lex_event_def py_path.simps)

lemma check_in_only:
  "check_in_date_passes (sample_world k) (JDict [(''CheckInDate'', filled_slot ''2026-04-02'')])"
  "nights_passes (JDict [(''CheckInDate'', filled_slot ''2026-04-02'')])"
  "all_filled (JDict [(''CheckInDate'', filled_slot ''2026-04-02'')])
     [''RoomType'', ''CheckInDate'', ''Nights''] = Inr False"
  by (simp_all add: check_in_date_passes_def nights_passes_def slot_filled_def py_get_def
      truthy_def filled_slot_def event_eval sample_dates sample_ordinals sample_clock)

lemma sample_availability:
  "check_room_availability (sample_world 0) JNull"
  "\<not> check_room_availability (sample_world 3) JNull"
  by (simp_all add: check_room_availability_def sample_world_def)


end
